theory Spec2Isabelle
  imports Main "HOL-Library.Sublist" "HOL-Library.AList"
begin

section \<open>Shared string helpers\<close>

text \<open>
  Strings are modelled as lists of 8-bit characters (the UTF-8 bytes of the source's
  strings).  All the protocol text handled by the proxy (request lines, header names,
  URLs, playlists) is ASCII-compatible, so prefix tests, splitting and concatenation
  agree with the source's string operations.
\<close>

definition CR :: char where
  "CR = CHR 0x0D"

definition LF :: char where
  "LF = CHR 0x0A"

definition CRLF :: string where
  "CRLF = [CR, LF]"

definition DQUOTE :: char where
  "DQUOTE = CHR 0x22"

text \<open>
  Ports and HTTP status codes are natural numbers: the sources hold them in \<^verbatim>\<open>UInt16\<close>, \<^verbatim>\<open>Int\<close>
  and \<^verbatim>\<open>number\<close> variables, never compute with them and only compare them with constants.
  \<open>show_nat\<close> is the decimal rendering string interpolation gives.
\<close>

fun show_nat :: "nat \<Rightarrow> string" where
  "show_nat n =
     (if n < 10 then [''0123456789'' ! n]
      else show_nat (n div 10) @ [''0123456789'' ! (n mod 10)])"

declare show_nat.simps [simp del]

text \<open>\<^verbatim>\<open>Array.prototype.join(',')\<close>.\<close>

fun join_comma :: "string list \<Rightarrow> string" where
  "join_comma [] = []"
| "join_comma [x] = x"
| "join_comma (x # y # ys) = x @ '','' @ join_comma (y # ys)"

text \<open>Splitting at every occurrence of a one-character separator; empty pieces are kept
  (Kotlin's \<^verbatim>\<open>split\<close>, Swift's \<^verbatim>\<open>components(separatedBy:)\<close>).\<close>

fun split_char :: "char \<Rightarrow> string \<Rightarrow> string list" where
  "split_char c [] = [[]]"
| "split_char c (x # xs) =
     (if x = c then [] # split_char c xs
      else (case split_char c xs of [] \<Rightarrow> [[x]] | w # ws \<Rightarrow> (x # w) # ws))"

text \<open>\<^verbatim>\<open>components(separatedBy: "\r\n")\<close>.\<close>

fun split_crlf :: "string \<Rightarrow> string list" where
  "split_crlf [] = [[]]"
| "split_crlf [x] = [[x]]"
| "split_crlf (x # y # zs) =
     (if x = CR \<and> y = LF then [] # split_crlf zs
      else (case split_crlf (y # zs) of [] \<Rightarrow> [[x]] | w # ws \<Rightarrow> (x # w) # ws))"

text \<open>ASCII lower-casing (\<^verbatim>\<open>lowercase()\<close>, \<^verbatim>\<open>lowercased()\<close>); other bytes are left alone.\<close>

definition toLowerAscii :: "char \<Rightarrow> char" where
  "toLowerAscii c =
     (case map_of (zip ''ABCDEFGHIJKLMNOPQRSTUVWXYZ'' ''abcdefghijklmnopqrstuvwxyz'') c of
        Some l \<Rightarrow> l
      | None \<Rightarrow> c)"

definition lowercase :: "string \<Rightarrow> string" where
  "lowercase s = map toLowerAscii s"

text \<open>\<^verbatim>\<open>haystack.contains(needle)\<close>: the needle occurs as a contiguous substring.\<close>

fun str_contains :: "string \<Rightarrow> string \<Rightarrow> bool" where
  "str_contains [] needle = (needle = [])"
| "str_contains (x # xs) needle = (prefix needle (x # xs) \<or> str_contains xs needle)"

text \<open>\<^verbatim>\<open>contains(needle, ignoreCase = true)\<close>.\<close>

definition str_contains_ignoreCase :: "string \<Rightarrow> string \<Rightarrow> bool" where
  "str_contains_ignoreCase haystack needle = str_contains (lowercase haystack) (lowercase needle)"

text \<open>Kotlin's \<^verbatim>\<open>substringAfter(delimiter)\<close>: the text after the first occurrence of the
  delimiter, and the whole string when the delimiter does not occur.\<close>

fun substringAfter_from :: "string \<Rightarrow> string \<Rightarrow> string \<Rightarrow> string" where
  "substringAfter_from [] delimiter missing = (if delimiter = [] then [] else missing)"
| "substringAfter_from (x # xs) delimiter missing =
     (if prefix delimiter (x # xs) then drop (length delimiter) (x # xs)
      else substringAfter_from xs delimiter missing)"

definition substringAfter :: "string \<Rightarrow> string \<Rightarrow> string" where
  "substringAfter s delimiter = substringAfter_from s delimiter s"

text \<open>Kotlin's \<^verbatim>\<open>trim()\<close> removes leading and trailing characters for which \<^verbatim>\<open>isWhitespace()\<close>
  holds; in ASCII these are the codes 9 to 13, 28 to 31 and the space.\<close>

definition isWhitespace :: "char \<Rightarrow> bool" where
  "isWhitespace c \<longleftrightarrow>
     c \<in> set [CHR 0x09, CHR 0x0A, CHR 0x0B, CHR 0x0C, CHR 0x0D,
               CHR 0x1C, CHR 0x1D, CHR 0x1E, CHR 0x1F, CHR 0x20]"

definition trim :: "string \<Rightarrow> string" where
  "trim s = rev (dropWhile isWhitespace (rev (dropWhile isWhitespace s)))"

text \<open>Swift's \<^verbatim>\<open>trimmingCharacters(in: .whitespaces)\<close>: in ASCII the space and the tabulator
  (no line terminators).\<close>

definition isSwiftWhitespace :: "char \<Rightarrow> bool" where
  "isSwiftWhitespace c \<longleftrightarrow> c \<in> set [CHR 0x09, CHR 0x20]"

definition trimmingWhitespaces :: "string \<Rightarrow> string" where
  "trimmingWhitespaces s = rev (dropWhile isSwiftWhitespace (rev (dropWhile isSwiftWhitespace s)))"

subsection \<open>Percent-encoding\<close>

definition hexDigitUpper :: "nat \<Rightarrow> char" where
  "hexDigitUpper n = ''0123456789ABCDEF'' ! n"

definition hexValue :: "char \<Rightarrow> nat option" where
  "hexValue c = map_of (zip ''0123456789ABCDEF'' [0..<16] @ zip ''abcdef'' [10..<16]) c"

definition percentEscape :: "char \<Rightarrow> string" where
  "percentEscape c =
     [CHR ''%'', hexDigitUpper (of_char c div 16), hexDigitUpper (of_char c mod 16)]"

text \<open>Percent-encoding of every byte outside a set of allowed characters.\<close>

definition percentEncode :: "(char \<Rightarrow> bool) \<Rightarrow> string \<Rightarrow> string" where
  "percentEncode allowed s = concat (map (\<lambda>c. if allowed c then [c] else percentEscape c) s)"

text \<open>The template \<^verbatim>\<open>"http://127.0.0.1:$port/proxy?url=$encoded"\<close> of the query-embedding
  proxies.\<close>

definition proxyUrlString :: "nat \<Rightarrow> string \<Rightarrow> string" where
  "proxyUrlString port encoded = ''http://127.0.0.1:'' @ show_nat port @ ''/proxy?url='' @ encoded"

text \<open>
  \<^verbatim>\<open>java.net.URLEncoder.encode(s, "UTF-8")\<close>: letters, digits and \<^verbatim>\<open>-_.*\<close> stay, the space becomes
  \<^verbatim>\<open>+\<close>, every other byte of the UTF-8 form becomes \<^verbatim>\<open>%XX\<close> with upper-case digits.
\<close>

definition dontNeedEncoding :: "char \<Rightarrow> bool" where
  "dontNeedEncoding c \<longleftrightarrow>
     c \<in> set ''abcdefghijklmnopqrstuvwxyzABCDEFGHIJKLMNOPQRSTUVWXYZ0123456789-_.*''"

definition URLEncoder_encode :: "string \<Rightarrow> string" where
  "URLEncoder_encode s =
     concat (map (\<lambda>c. if dontNeedEncoding c then [c]
                        else if c = CHR '' '' then ''+''
                        else percentEscape c) s)"

text \<open>
  \<^verbatim>\<open>java.net.URLDecoder.decode(s, "UTF-8")\<close>: \<^verbatim>\<open>+\<close> becomes a space, \<^verbatim>\<open>%XX\<close> becomes the byte, and
  an incomplete or non-hexadecimal escape raises \<^verbatim>\<open>IllegalArgumentException\<close> (\<open>None\<close>).
\<close>

fun URLDecoder_decode :: "string \<Rightarrow> string option" where
  "URLDecoder_decode [] = Some []"
| "URLDecoder_decode (c # cs) =
     (if c = CHR ''+'' then map_option ((#) CHR '' '') (URLDecoder_decode cs)
      else if c = CHR ''%'' then
        (case cs of
           h # l # rest \<Rightarrow>
             (case (hexValue h, hexValue l) of
                (Some a, Some b) \<Rightarrow>
                  map_option ((#) (char_of (16 * a + b))) (URLDecoder_decode rest)
              | _ \<Rightarrow> None)
         | _ \<Rightarrow> None)
      else map_option ((#) c) (URLDecoder_decode cs))"

text \<open>
  \<^verbatim>\<open>encodeURIComponent\<close> (ECMAScript): the unreserved characters stay, every other byte of the
  UTF-8 form becomes \<^verbatim>\<open>%XX\<close>.
\<close>

definition uriUnreserved :: "char \<Rightarrow> bool" where
  "uriUnreserved c \<longleftrightarrow>
     c \<in> set (''abcdefghijklmnopqrstuvwxyzABCDEFGHIJKLMNOPQRSTUVWXYZ0123456789-_.!~*'' @
               [CHR 0x27] @ ''()'')"

definition encodeURIComponent :: "string \<Rightarrow> string" where
  "encodeURIComponent s = percentEncode uriUnreserved s"

section \<open>TypeScript API: \<^verbatim>\<open>src/CMCDProxy.ts\<close>\<close>

subsection \<open>\<^verbatim>\<open>formatCmcdHeaders\<close>\<close>

text \<open>
  A JavaScript value as \<^verbatim>\<open>formatValue\<close> discriminates it with \<^verbatim>\<open>typeof\<close>.  Numbers are IEEE
  doubles; the embedding does not interpret them and takes the three observations the
  code makes of a number (\<^verbatim>\<open>Number.isInteger\<close>, template interpolation and \<^verbatim>\<open>toFixed(0)\<close>)
  as the operations of a parameter record.
\<close>

datatype 'n js_value = Boolean bool | String string | Number 'n

record 'n number_ops =
  isInteger :: "'n \<Rightarrow> bool"
  toString :: "'n \<Rightarrow> string"
  toFixed0 :: "'n \<Rightarrow> string"

text \<open>
  The type \<^verbatim>\<open>CmcdData\<close>: every key is optional (\<^verbatim>\<open>undefined\<close> is \<open>None\<close>).  The fields carry
  the prefix \<open>cmcd_\<close> because one-letter selectors such as \<open>d\<close> and \<open>v\<close> would capture variable
  names.
\<close>

record 'n CmcdData =
  cmcd_sid :: "string option"
  cmcd_cid :: "string option"
  cmcd_br :: "'n option"
  cmcd_d :: "'n option"
  cmcd_ot :: "string option"
  cmcd_tb :: "'n option"
  cmcd_bl :: "'n option"
  cmcd_dl :: "'n option"
  cmcd_mtp :: "'n option"
  cmcd_nor :: "string option"
  cmcd_nrr :: "string option"
  cmcd_su :: "bool option"
  cmcd_bs :: "bool option"
  cmcd_pr :: "'n option"
  cmcd_sf :: "string option"
  cmcd_st :: "string option"
  cmcd_v :: "'n option"
  cmcd_rtp :: "'n option"

definition formatValue :: "'n number_ops \<Rightarrow> string \<Rightarrow> 'n js_value \<Rightarrow> string" where
  "formatValue ops key val =
     (case val of
        Boolean b \<Rightarrow> (if b then key else [])
      | String s \<Rightarrow>
          (if key \<in> set [''ot'', ''sf'', ''st''] then key @ ''='' @ s
           else key @ ''='' @ [DQUOTE] @ s @ [DQUOTE])
      | Number x \<Rightarrow>
          (if isInteger ops x then key @ ''='' @ toString ops x
           else key @ ''='' @ toFixed0 ops x))"

text \<open>\<^verbatim>\<open>if (data.k !== undefined) parts.push(formatValue('k', data.k))\<close>.\<close>

definition push_defined :: "'a option \<Rightarrow> ('a \<Rightarrow> string) \<Rightarrow> string list \<Rightarrow> string list" where
  "push_defined field fmt parts = (case field of None \<Rightarrow> parts | Some x \<Rightarrow> parts @ [fmt x])"

text \<open>\<^verbatim>\<open>if (parts.length > 0) headers[name] = parts.filter(Boolean).join(',')\<close>.\<close>

definition set_group :: "string \<Rightarrow> string list \<Rightarrow> (string \<rightharpoonup> string) \<Rightarrow> (string \<rightharpoonup> string)" where
  "set_group name parts headers =
     (if length parts > 0 then headers(name \<mapsto> join_comma (filter (\<lambda>p. p \<noteq> []) parts))
      else headers)"

definition objectParts :: "'n number_ops \<Rightarrow> 'n CmcdData \<Rightarrow> string list" where
  "objectParts ops data =
     (push_defined (cmcd_tb data) (\<lambda>x. formatValue ops ''tb'' (Number x))
     (push_defined (cmcd_ot data) (\<lambda>x. formatValue ops ''ot'' (String x))
     (push_defined (cmcd_d data) (\<lambda>x. formatValue ops ''d'' (Number x))
     (push_defined (cmcd_br data) (\<lambda>x. formatValue ops ''br'' (Number x)) []))))"

definition requestParts :: "'n number_ops \<Rightarrow> 'n CmcdData \<Rightarrow> string list" where
  "requestParts ops data =
     (push_defined (cmcd_su data) (\<lambda>x. formatValue ops ''su'' (Boolean x))
     (push_defined (cmcd_nrr data) (\<lambda>x. formatValue ops ''nrr'' (String x))
     (push_defined (cmcd_nor data) (\<lambda>x. formatValue ops ''nor'' (String x))
     (push_defined (cmcd_mtp data) (\<lambda>x. formatValue ops ''mtp'' (Number x))
     (push_defined (cmcd_dl data) (\<lambda>x. formatValue ops ''dl'' (Number x))
     (push_defined (cmcd_bl data) (\<lambda>x. formatValue ops ''bl'' (Number x)) []))))))"

definition sessionParts :: "'n number_ops \<Rightarrow> 'n CmcdData \<Rightarrow> string list" where
  "sessionParts ops data =
     (push_defined (cmcd_v data) (\<lambda>x. formatValue ops ''v'' (Number x))
     (push_defined (cmcd_st data) (\<lambda>x. formatValue ops ''st'' (String x))
     (push_defined (cmcd_sid data) (\<lambda>x. formatValue ops ''sid'' (String x))
     (push_defined (cmcd_sf data) (\<lambda>x. formatValue ops ''sf'' (String x))
     (push_defined (cmcd_pr data) (\<lambda>x. formatValue ops ''pr'' (Number x))
     (push_defined (cmcd_cid data) (\<lambda>x. formatValue ops ''cid'' (String x)) []))))))"

definition statusParts :: "'n number_ops \<Rightarrow> 'n CmcdData \<Rightarrow> string list" where
  "statusParts ops data =
     (push_defined (cmcd_rtp data) (\<lambda>x. formatValue ops ''rtp'' (Number x))
     (push_defined (cmcd_bs data) (\<lambda>x. formatValue ops ''bs'' (Boolean x)) []))"

definition formatCmcdHeaders :: "'n number_ops \<Rightarrow> 'n CmcdData \<Rightarrow> (string \<rightharpoonup> string)" where
  "formatCmcdHeaders ops data =
     (set_group ''CMCD-Status'' (statusParts ops data)
     (set_group ''CMCD-Session'' (sessionParts ops data)
     (set_group ''CMCD-Request'' (requestParts ops data)
     (set_group ''CMCD-Object'' (objectParts ops data) Map.empty))))"

subsection \<open>\<^verbatim>\<open>CMCDProxy.createProxyUrl\<close>\<close>

text \<open>The argument \<open>port\<close> is the value of \<^verbatim>\<open>NativeVideoModule.getCMCDProxyPort()\<close>.\<close>

definition createProxyUrl_ts :: "nat \<Rightarrow> string \<Rightarrow> string option" where
  "createProxyUrl_ts port originalUrl =
     (if port = 0 then None
      else Some (proxyUrlString port (encodeURIComponent originalUrl)))"

section \<open>Android proxy: \<^verbatim>\<open>android/.../proxy/CMCDProxy.kt\<close>\<close>

text \<open>
  The fields of the Kotlin class, and the sockets and executors it has created.  Sockets and
  executors are identified by numbers; \<open>closedServerSockets\<close> and \<open>shutDownExecutors\<close> record
  on which of them \<^verbatim>\<open>close()\<close> and \<^verbatim>\<open>shutdownNow()\<close> have been called.  The class has no field
  for the client sockets it accepted: each of them is held by the task that
  \<^verbatim>\<open>acceptConnections\<close> submitted to the executor.  \<open>clientSockets\<close> lists the accepted sockets
  that are still open, and \<open>closedClientSockets\<close> those that have been closed.
  \<open>dynamicHeadersProvider\<close> is the result the registered provider yields when it is invoked
  (\<open>None\<close>: no provider, or its weak reference is cleared).  A Kotlin
  \<^verbatim>\<open>Map<String, String>\<close> is the list of its entries in iteration order.
\<close>

record android_proxy =
  serverSocket :: "nat option"
  executor :: "nat option"
  a_port :: nat
  isRunning :: bool
  a_staticHeaders :: "(string \<times> string) list"
  a_dynamicHeadersProvider :: "(string \<times> string) list option"
  closedServerSockets :: "nat set"
  shutDownExecutors :: "nat set"
  clientSockets :: "nat list"
  closedClientSockets :: "nat set"

text \<open>The configuration of \<^verbatim>\<open>httpClient\<close>, the OkHttp client of every upstream call.\<close>

record okhttp_client =
  followRedirects :: bool
  connectTimeoutSeconds :: nat
  readTimeoutSeconds :: nat

definition httpClient :: okhttp_client where
  "httpClient = \<lparr>followRedirects = True, connectTimeoutSeconds = 30, readTimeoutSeconds = 30\<rparr>"

text \<open>
  \<^verbatim>\<open>stop()\<close> closes the server socket and calls \<^verbatim>\<open>shutdownNow()\<close> on the executor, which
  interrupts the worker threads and returns without waiting for them.  No statement of
  \<^verbatim>\<open>stop()\<close> closes an accepted client socket, so \<open>clientSockets\<close> and \<open>closedClientSockets\<close>
  are as they were when it returns.
\<close>

definition stop_android :: "android_proxy \<Rightarrow> android_proxy" where
  "stop_android p =
     p\<lparr>isRunning := False,
       closedServerSockets := closedServerSockets p \<union> set_option (serverSocket p),
       shutDownExecutors := shutDownExecutors p \<union> set_option (executor p),
       serverSocket := None,
       executor := None,
       a_port := 0\<rparr>"

text \<open>
  One pass of the loop of \<^verbatim>\<open>acceptConnections\<close>, accepting the socket \<open>client\<close>: the loop runs
  while \<^verbatim>\<open>isRunning\<close> is set and the server socket is there and not closed, and it hands every
  accepted socket to a task of the executor.
\<close>

definition acceptConnections :: "android_proxy \<Rightarrow> nat \<Rightarrow> android_proxy" where
  "acceptConnections p client =
     (case serverSocket p of
        None \<Rightarrow> p
      | Some s \<Rightarrow>
          if isRunning p \<and> s \<notin> closedServerSockets p
          then p\<lparr>clientSockets := clientSockets p @ [client]\<rparr>
          else p)"

text \<open>
  \<^verbatim>\<open>client.use { ... }\<close> in \<^verbatim>\<open>handleClient\<close>: the socket is closed when the block is left, which
  is when the task of that client ends.
\<close>

definition handleClient_done :: "android_proxy \<Rightarrow> nat \<Rightarrow> android_proxy" where
  "handleClient_done p client =
     p\<lparr>clientSockets := removeAll client (clientSockets p),
       closedClientSockets := insert client (closedClientSockets p)\<rparr>"

text \<open>\<^verbatim>\<open>CMCDProxyManager.isRunning\<close> and \<^verbatim>\<open>CMCDProxyManager.port\<close>.\<close>

definition isRunning_android :: "android_proxy \<Rightarrow> bool" where
  "isRunning_android p \<longleftrightarrow> a_port p > 0"

definition port_android :: "android_proxy \<Rightarrow> nat" where
  "port_android p = a_port p"

definition createProxyUrl_android :: "nat \<Rightarrow> string \<Rightarrow> string option" where
  "createProxyUrl_android currentPort originalUrl =
     (if currentPort = 0 then None
      else Some (proxyUrlString currentPort (URLEncoder_encode originalUrl)))"

definition httpStatusMessage_android :: "nat \<Rightarrow> string" where
  "httpStatusMessage_android code =
     (if code = 200 then ''OK''
      else if code = 400 then ''Bad Request''
      else if code = 404 then ''Not Found''
      else if code = 405 then ''Method Not Allowed''
      else if code = 500 then ''Internal Server Error''
      else if code = 502 then ''Bad Gateway''
      else ''Unknown'')"

subsection \<open>Writing responses\<close>

text \<open>
  Each writer is given twice: the header fields it emits, in order, as (name, value) pairs,
  and the bytes it writes to the client socket, built from the same pairs.
\<close>

definition skippedHeader :: "string \<Rightarrow> bool" where
  "skippedHeader key \<longleftrightarrow>
     lowercase key = ''content-encoding'' \<or> lowercase key = ''transfer-encoding'' \<or>
     lowercase key = ''content-length''"

definition sendResponse_android_fields ::
  "(string \<times> string) list \<Rightarrow> string \<Rightarrow> (string \<times> string) list" where
  "sendResponse_android_fields headers body =
     [(''Access-Control-Allow-Origin'', ''*'')] @
     filter (\<lambda>(key, value). \<not> skippedHeader key) headers @
     [(''Content-Length'', show_nat (length body))]"

definition headerLine :: "string \<times> string \<Rightarrow> string" where
  "headerLine kv = fst kv @ '': '' @ snd kv @ CRLF"

definition sendResponse_android ::
  "nat \<Rightarrow> (string \<times> string) list \<Rightarrow> string \<Rightarrow> string" where
  "sendResponse_android statusCode headers body =
     ''HTTP/1.1 '' @ show_nat statusCode @ '' '' @ httpStatusMessage_android statusCode @ CRLF @
     concat (map headerLine (sendResponse_android_fields headers body)) @
     CRLF @ body"

text \<open>
  \<^verbatim>\<open>sendErrorResponse\<close> builds its head from a raw string through \<^verbatim>\<open>trimIndent()\<close>: the four lines
  end in a line feed only, and \<^verbatim>\<open>"\r\n"\<close> is appended after them.
\<close>

definition sendErrorResponse_android_fields :: "string \<Rightarrow> (string \<times> string) list" where
  "sendErrorResponse_android_fields message =
     [(''Content-Type'', ''text/plain''),
      (''Content-Length'', show_nat (length message)),
      (''Access-Control-Allow-Origin'', ''*'')]"

definition sendErrorResponse_android :: "nat \<Rightarrow> string \<Rightarrow> string" where
  "sendErrorResponse_android statusCode message =
     ''HTTP/1.1 '' @ show_nat statusCode @ '' '' @ httpStatusMessage_android statusCode @ [LF] @
     concat (map (\<lambda>kv. fst kv @ '': '' @ snd kv @ [LF])
                 (sendErrorResponse_android_fields message)) @
     CRLF @ message"

subsection \<open>Manifest rewriting\<close>

text \<open>
  \<^verbatim>\<open>java.net.URI\<close> is outside the repository.  Its three operations the proxy uses are the
  fields of a parameter record; a URI object is represented by the string it was built from.
  \<open>URI_valid s\<close>: the constructor \<^verbatim>\<open>URI(s)\<close> returns (it does not throw); \<open>URI_getPath\<close>: the
  result of \<^verbatim>\<open>path\<close> (\<open>None\<close> for \<^verbatim>\<open>null\<close>); \<open>URI_resolve base ref\<close>: the text of
  \<^verbatim>\<open>base.resolve(ref)\<close>, \<open>None\<close> when it throws.
\<close>

record java_URI =
  URI_valid :: "string \<Rightarrow> bool"
  URI_getPath :: "string \<Rightarrow> string option"
  URI_resolve :: "string \<Rightarrow> string \<Rightarrow> string option"

definition resolveUrl_android :: "java_URI \<Rightarrow> string \<Rightarrow> string \<Rightarrow> string option" where
  "resolveUrl_android lib urlString baseUri =
     (if prefix ''http://'' urlString \<or> prefix ''https://'' urlString then Some urlString
      else URI_resolve lib baseUri urlString)"

definition URI_attr :: string where
  "URI_attr = ''URI='' @ [DQUOTE]"

text \<open>
  \<^verbatim>\<open>Regex("""URI="([^"]*)"""").replace(line) { ... }\<close>: the matches are found from left to right
  and do not overlap; each is replaced by what \<open>transform\<close> returns for the text captured
  between the quotes.
\<close>

function replaceURIMatches :: "(string \<Rightarrow> string) \<Rightarrow> string \<Rightarrow> string" where
  "replaceURIMatches transform [] = []"
| "replaceURIMatches transform (c # cs) =
     (if prefix URI_attr (c # cs) \<and> DQUOTE \<in> set (drop (length URI_attr) (c # cs)) then
        transform (takeWhile (\<lambda>x. x \<noteq> DQUOTE) (drop (length URI_attr) (c # cs)))
          @ replaceURIMatches transform
              (tl (dropWhile (\<lambda>x. x \<noteq> DQUOTE) (drop (length URI_attr) (c # cs))))
      else c # replaceURIMatches transform cs)"
  by pat_completeness auto
termination
proof (relation "measure (\<lambda>(t, s). length s)")
  show "wf (measure (\<lambda>(t, s). length s))" by simp
next
  fix transform :: "string \<Rightarrow> string" and c cs
  have "length (tl (dropWhile (\<lambda>x. x \<noteq> DQUOTE) (drop (length URI_attr) (c # cs))))
          \<le> length (drop (length URI_attr) (c # cs))"
    using length_dropWhile_le [of "\<lambda>x. x \<noteq> DQUOTE" "drop (length URI_attr) (c # cs)"] by simp
  also have "\<dots> < length (c # cs)"
    by (simp add: URI_attr_def)
  finally show "((transform, tl (dropWhile (\<lambda>x. x \<noteq> DQUOTE) (drop (length URI_attr) (c # cs)))),
        transform, c # cs) \<in> measure (\<lambda>(t, s). length s)"
    by simp
next
  fix transform :: "string \<Rightarrow> string" and c cs
  show "((transform, cs), transform, c # cs) \<in> measure (\<lambda>(t, s). length s)" by simp
qed

declare replaceURIMatches.simps [simp del]

definition rewriteURIAttributes_android ::
  "java_URI \<Rightarrow> nat \<Rightarrow> string \<Rightarrow> string \<Rightarrow> string" where
  "rewriteURIAttributes_android lib port line baseUri =
     replaceURIMatches
       (\<lambda>uri. case resolveUrl_android lib uri baseUri of
                 Some resolvedUrl \<Rightarrow>
                   (case createProxyUrl_android port resolvedUrl of
                      Some proxyUrl \<Rightarrow> URI_attr @ proxyUrl @ [DQUOTE]
                    | None \<Rightarrow> URI_attr @ uri @ [DQUOTE])
               | None \<Rightarrow> URI_attr @ uri @ [DQUOTE])
       line"

text \<open>The body of the loop over the lines: the value of \<^verbatim>\<open>newLine\<close> for one line.\<close>

definition rewriteLine_android :: "java_URI \<Rightarrow> nat \<Rightarrow> string \<Rightarrow> string \<Rightarrow> string" where
  "rewriteLine_android lib port baseUri line =
     (if str_contains line URI_attr then rewriteURIAttributes_android lib port line baseUri
      else if \<not> prefix ''#'' line \<and> trim line \<noteq> [] then
        (case resolveUrl_android lib (trim line) baseUri of
           Some segmentUrl \<Rightarrow>
             (case createProxyUrl_android port segmentUrl of
                Some proxyUrl \<Rightarrow> proxyUrl
              | None \<Rightarrow> line)
         | None \<Rightarrow> line)
      else line)"

definition rewriteHLSManifest_android ::
  "java_URI \<Rightarrow> nat \<Rightarrow> string \<Rightarrow> string \<Rightarrow> string" where
  "rewriteHLSManifest_android lib port content baseUrl =
     (if \<not> URI_valid lib baseUrl then content
      else fold (\<lambda>line result. result @ rewriteLine_android lib port baseUrl line @ [LF])
             (split_char LF content) [])"

subsection \<open>Handling one connection\<close>

text \<open>
  An upstream request is the URL and the header fields of the OkHttp request, in the order
  they were added; \<^verbatim>\<open>Request.Builder.addHeader\<close> appends a field and keeps the fields already
  present.  The upstream call is a parameter: it yields the response, or the message of the
  exception raised while the request is built and carried out.
\<close>

record http_request =
  req_url :: string
  req_headers :: "(string \<times> string) list"

record http_response =
  resp_code :: nat
  resp_headers :: "(string \<times> string) list"
  resp_body :: string

definition addHeader :: "string \<Rightarrow> string \<Rightarrow> (string \<times> string) list \<Rightarrow> (string \<times> string) list" where
  "addHeader name val hdrs = hdrs @ [(name, val)]"

text \<open>\<^verbatim>\<open>Response.header(name)\<close>: the last value of the field, names compared without case.\<close>

definition okhttp_header :: "(string \<times> string) list \<Rightarrow> string \<Rightarrow> string option" where
  "okhttp_header hdrs name =
     (case filter (\<lambda>(k, v). lowercase k = lowercase name) hdrs of
        [] \<Rightarrow> None
      | x # xs \<Rightarrow> Some (snd (last (x # xs))))"

text \<open>\<^verbatim>\<open>resp.headers.toMap().toMutableMap()\<close>: a later pair replaces the value of an equal name.\<close>

definition toMap :: "(string \<times> string) list \<Rightarrow> (string \<times> string) list" where
  "toMap hdrs = fold (\<lambda>(k, v) m. AList.update k v m) hdrs []"

text \<open>What one connection does: the upstream requests it issued and the bytes it wrote.\<close>

record exchange =
  upstreamRequests :: "http_request list"
  written :: string

definition buildRequest_android :: "android_proxy \<Rightarrow> string \<Rightarrow> http_request" where
  "buildRequest_android p originalUrl =
     \<lparr>req_url = originalUrl,
      req_headers =
        fold (\<lambda>(key, value) hdrs. addHeader key value hdrs)
          (case a_dynamicHeadersProvider p of None \<Rightarrow> [] | Some dynamicHeaders \<Rightarrow> dynamicHeaders)
          (fold (\<lambda>(key, value) hdrs. addHeader key value hdrs) (a_staticHeaders p) [])\<rparr>"

definition isManifest_android :: "java_URI \<Rightarrow> string \<Rightarrow> string \<Rightarrow> bool" where
  "isManifest_android lib contentType originalUrl =
     (let urlPath =
            (if URI_valid lib originalUrl then
               (case URI_getPath lib originalUrl of
                  Some path \<Rightarrow> lowercase path
                | None \<Rightarrow> lowercase originalUrl)
             else lowercase originalUrl)
      in str_contains_ignoreCase contentType ''mpegurl'' \<or>
         str_contains_ignoreCase contentType ''x-mpegURL'' \<or>
         suffix ''.m3u8'' urlPath)"

text \<open>The fields and the body passed to \<^verbatim>\<open>sendResponse\<close> for an upstream response.\<close>

definition responseHeadersMap_android ::
  "java_URI \<Rightarrow> string \<Rightarrow> http_response \<Rightarrow> (string \<times> string) list" where
  "responseHeadersMap_android lib originalUrl resp =
     (let contentType = (case okhttp_header (resp_headers resp) ''Content-Type'' of
                           Some t \<Rightarrow> t | None \<Rightarrow> []);
          headersMap = toMap (resp_headers resp)
      in if isManifest_android lib contentType originalUrl
         then AList.update ''Content-Type'' ''application/vnd.apple.mpegurl'' headersMap
         else headersMap)"

definition responseBody_android ::
  "java_URI \<Rightarrow> nat \<Rightarrow> string \<Rightarrow> http_response \<Rightarrow> string" where
  "responseBody_android lib port originalUrl resp =
     (let contentType = (case okhttp_header (resp_headers resp) ''Content-Type'' of
                           Some t \<Rightarrow> t | None \<Rightarrow> [])
      in if isManifest_android lib contentType originalUrl
         then rewriteHLSManifest_android lib port (resp_body resp) originalUrl
         else resp_body resp)"

definition fetchAndProxy_android ::
  "java_URI \<Rightarrow> (http_request \<Rightarrow> string + http_response) \<Rightarrow> android_proxy \<Rightarrow> string \<Rightarrow> exchange" where
  "fetchAndProxy_android lib execute p originalUrl =
     (let request = buildRequest_android p originalUrl in
      case execute request of
        Inl message \<Rightarrow>
          \<lparr>upstreamRequests = [request],
           written = sendErrorResponse_android 502 (''Bad Gateway: '' @ message)\<rparr>
      | Inr resp \<Rightarrow>
          \<lparr>upstreamRequests = [request],
           written = sendResponse_android (resp_code resp)
                       (responseHeadersMap_android lib originalUrl resp)
                       (responseBody_android lib (a_port p) originalUrl resp)\<rparr>)"

text \<open>
  \<^verbatim>\<open>handleClient\<close> reads the request as lines; the argument is the list of lines the client
  sent (\<^verbatim>\<open>readLine()\<close> returns \<^verbatim>\<open>null\<close> after the last).  The header lines are read and dropped.
\<close>

definition handleClient ::
  "java_URI \<Rightarrow> (http_request \<Rightarrow> string + http_response) \<Rightarrow> android_proxy \<Rightarrow> string list \<Rightarrow> exchange" where
  "handleClient lib execute p lines =
     (case lines of
        [] \<Rightarrow> \<lparr>upstreamRequests = [], written = []\<rparr>
      | requestLine # headerLines \<Rightarrow>
          (let parts = split_char (CHR '' '') requestLine in
           if length parts < 2 then
             \<lparr>upstreamRequests = [], written = sendErrorResponse_android 400 ''Bad Request''\<rparr>
           else
             (let method = parts ! 0; path = parts ! 1 in
              if method \<noteq> ''GET'' then
                \<lparr>upstreamRequests = [],
                 written = sendErrorResponse_android 405 ''Method Not Allowed''\<rparr>
              else if \<not> prefix ''/proxy?url='' path then
                \<lparr>upstreamRequests = [],
                 written = sendErrorResponse_android 400 ''Invalid proxy path''\<rparr>
              else
                (case URLDecoder_decode (substringAfter path ''/proxy?url='') of
                   None \<Rightarrow>
                     \<lparr>upstreamRequests = [],
                      written = sendErrorResponse_android 400 ''Invalid URL encoding''\<rparr>
                 | Some originalUrl \<Rightarrow> fetchAndProxy_android lib execute p originalUrl))))"

section \<open>Foundation values used by the Swift proxies\<close>

text \<open>
  A Swift \<^verbatim>\<open>URL\<close> is represented by its absolute string.  \<^verbatim>\<open>URL(string:)\<close> is failable: it
  returns \<^verbatim>\<open>nil\<close> for the empty string and for a string with a character that is illegal in a
  URL.  The legality rule written out here is the one of RFC 2396 with the brackets of IPv6
  literals: letters, digits, the marks and the reserved characters are legal, a percent sign
  must start a two-digit hexadecimal escape, and the number sign may occur once.
\<close>

definition urlLegalChar :: "char \<Rightarrow> bool" where
  "urlLegalChar c \<longleftrightarrow>
     c \<in> set (''abcdefghijklmnopqrstuvwxyzABCDEFGHIJKLMNOPQRSTUVWXYZ0123456789'' @
               ''-_.!~*'' @ [CHR 0x27] @ ''();/?:@&=+$,[]'')"

fun legalURLScan :: "bool \<Rightarrow> string \<Rightarrow> bool" where
  "legalURLScan sawHash [] = True"
| "legalURLScan sawHash (c # cs) =
     (if c = CHR ''%'' then
        (case cs of
           h # l # rest \<Rightarrow> hexValue h \<noteq> None \<and> hexValue l \<noteq> None \<and> legalURLScan sawHash rest
         | _ \<Rightarrow> False)
      else if c = CHR ''#'' then \<not> sawHash \<and> legalURLScan True cs
      else urlLegalChar c \<and> legalURLScan sawHash cs)"

definition isLegalURLString :: "string \<Rightarrow> bool" where
  "isLegalURLString s \<longleftrightarrow> s \<noteq> [] \<and> legalURLScan False s"

typedef URL = "{s. isLegalURLString s}"
  morphisms absoluteString URL_of_string
proof
  show "''/'' \<in> {s. isLegalURLString s}"
    by (simp add: isLegalURLString_def urlLegalChar_def)
qed

text \<open>\<^verbatim>\<open>URL(string:)\<close>.\<close>

definition URL_string :: "string \<Rightarrow> URL option" where
  "URL_string s = (if isLegalURLString s then Some (URL_of_string s) else None)"

text \<open>
  The other Foundation operations are parameters: whether a \<^verbatim>\<open>Data\<close> value is the UTF-8 form of
  a string (\<^verbatim>\<open>String(data:encoding:)\<close> returns it then, and \<^verbatim>\<open>nil\<close> otherwise), the result of
  \<^verbatim>\<open>URL(string:relativeTo:)\<close> as an absolute URL, and \<^verbatim>\<open>pathExtension\<close>.
\<close>

record foundation =
  isUTF8 :: "string \<Rightarrow> bool"
  URL_relativeTo :: "string \<Rightarrow> URL \<Rightarrow> URL option"
  pathExtension :: "URL \<Rightarrow> string"

text \<open>\<^verbatim>\<open>HTTPURLResponse.value(forHTTPHeaderField:)\<close>: field names are compared without case.\<close>

definition valueForHTTPHeaderField :: "(string \<times> string) list \<Rightarrow> string \<Rightarrow> string option" where
  "valueForHTTPHeaderField hdrs name =
     map_of (map (\<lambda>(k, v). (lowercase k, v)) hdrs) (lowercase name)"

text \<open>\<^verbatim>\<open>URLRequest.setValue(_:forHTTPHeaderField:)\<close> replaces the value of a field that is
  already present and adds the field otherwise; a Swift dictionary is the list of its
  entries, and \<^verbatim>\<open>dict[key] = value\<close> is the same update.\<close>

definition setValue :: "string \<Rightarrow> string \<Rightarrow> (string \<times> string) list \<Rightarrow> (string \<times> string) list" where
  "setValue val name hdrs = AList.update name val hdrs"

text \<open>The result of the data task of an upstream request.\<close>

datatype upstream_result =
  TransportError string
| NotHTTPResponse
| HTTPResponse http_response

section \<open>iOS proxy: \<^verbatim>\<open>ios/Proxy/CMCDProxy.swift\<close> (path-embedding)\<close>

text \<open>
  The fields of the class.  Listeners and connections are identified by numbers; the two
  sets record on which of them \<^verbatim>\<open>cancel()\<close> has been called.
\<close>

record ios_proxy =
  i_listener :: "nat option"
  i_port :: nat
  i_activeConnections :: "nat list"
  i_staticHeaders :: "(string \<times> string) list"
  i_dynamicHeadersProvider :: "(string \<times> string) list option"
  cancelledListeners :: "nat set"
  cancelledConnections :: "nat set"

definition isReady_ios :: "ios_proxy \<Rightarrow> bool" where
  "isReady_ios p \<longleftrightarrow> i_port p > 0"

definition proxyBaseUrl :: "nat \<Rightarrow> string" where
  "proxyBaseUrl port = ''http://localhost:'' @ show_nat port @ ''/''"

definition stop_ios :: "ios_proxy \<Rightarrow> ios_proxy" where
  "stop_ios p =
     p\<lparr>cancelledListeners := cancelledListeners p \<union> set_option (i_listener p),
       i_listener := None,
       i_port := 0,
       i_activeConnections := [],
       cancelledConnections := cancelledConnections p \<union> set (i_activeConnections p)\<rparr>"

text \<open>\<^verbatim>\<open>CMCDProxyManager.isRunning\<close> and \<^verbatim>\<open>CMCDProxyManager.port\<close>.\<close>

definition isRunning_ios :: "ios_proxy \<Rightarrow> bool" where
  "isRunning_ios p \<longleftrightarrow> i_port p > 0"

definition port_ios :: "ios_proxy \<Rightarrow> nat" where
  "port_ios p = i_port p"

definition createProxyUrl_ios :: "nat \<Rightarrow> URL \<Rightarrow> URL option" where
  "createProxyUrl_ios port originalUrl =
     (if port > 0 then URL_string (proxyBaseUrl port @ absoluteString originalUrl) else None)"

definition unproxiedUrl :: "nat \<Rightarrow> URL \<Rightarrow> URL option" where
  "unproxiedUrl port url =
     (let urlString = absoluteString url in
      if \<not> prefix (proxyBaseUrl port) urlString then None
      else URL_string (drop (length (proxyBaseUrl port)) urlString))"

definition httpStatusMessage_ios :: "nat \<Rightarrow> string" where
  "httpStatusMessage_ios code =
     (if code = 200 then ''OK''
      else if code = 301 then ''Moved Permanently''
      else if code = 302 then ''Found''
      else if code = 307 then ''Temporary Redirect''
      else if code = 308 then ''Permanent Redirect''
      else if code = 400 then ''Bad Request''
      else if code = 404 then ''Not Found''
      else if code = 405 then ''Method Not Allowed''
      else if code = 500 then ''Internal Server Error''
      else if code = 502 then ''Bad Gateway''
      else ''Unknown'')"

definition sendResponse_ios_fields :: "string option \<Rightarrow> string \<Rightarrow> (string \<times> string) list" where
  "sendResponse_ios_fields contentType data =
     [(''Access-Control-Allow-Origin'', ''*'')] @
     (case contentType of Some t \<Rightarrow> [(''Content-Type'', t)] | None \<Rightarrow> []) @
     [(''Content-Length'', show_nat (length data))]"

definition sendResponse_ios :: "nat \<Rightarrow> string option \<Rightarrow> string \<Rightarrow> string" where
  "sendResponse_ios statusCode contentType data =
     ''HTTP/1.1 '' @ show_nat statusCode @ '' '' @ httpStatusMessage_ios statusCode @ CRLF @
     concat (map headerLine (sendResponse_ios_fields contentType data)) @
     CRLF @ data"

definition sendRedirectResponse_ios_fields :: "string \<Rightarrow> (string \<times> string) list" where
  "sendRedirectResponse_ios_fields location =
     [(''Location'', location), (''Content-Length'', ''0'')]"

definition sendRedirectResponse_ios :: "nat \<Rightarrow> string \<Rightarrow> string" where
  "sendRedirectResponse_ios statusCode location =
     ''HTTP/1.1 '' @ show_nat statusCode @ '' '' @ httpStatusMessage_ios statusCode @ CRLF @
     concat (map headerLine (sendRedirectResponse_ios_fields location)) @
     CRLF"

definition sendErrorResponse_ios :: "nat \<Rightarrow> string \<Rightarrow> string" where
  "sendErrorResponse_ios statusCode message =
     sendResponse_ios statusCode (Some ''text/plain'') message"

text \<open>
  \<^verbatim>\<open>NoRedirectDelegate\<close>: the request the URL session is told to follow when the upstream
  answers with a redirect (\<open>None\<close> is \<^verbatim>\<open>completionHandler(nil)\<close>: the redirect is not followed and
  the redirect response itself is delivered to the data task).
\<close>

definition willPerformHTTPRedirection :: "http_response \<Rightarrow> http_request \<Rightarrow> http_request option" where
  "willPerformHTTPRedirection response newRequest = None"

definition buildRequest_ios ::
  "ios_proxy \<Rightarrow> URL \<Rightarrow> (string \<times> string) list \<Rightarrow> http_request" where
  "buildRequest_ios p originalUrl originalHeaders =
     \<lparr>req_url = absoluteString originalUrl,
      req_headers =
        fold (\<lambda>(key, value) hdrs. setValue value key hdrs)
          (case i_dynamicHeadersProvider p of None \<Rightarrow> [] | Some dynamicHeaders \<Rightarrow> dynamicHeaders)
          (fold (\<lambda>(key, value) hdrs. setValue value key hdrs) (i_staticHeaders p)
            (fold (\<lambda>(key, value) hdrs. setValue value key hdrs) originalHeaders []))\<rparr>"

definition isRedirectStatus :: "nat \<Rightarrow> bool" where
  "isRedirectStatus statusCode \<longleftrightarrow>
     statusCode = 301 \<or> statusCode = 302 \<or> statusCode = 307 \<or> statusCode = 308"

text \<open>The proxied redirect target of an upstream response, when all three bindings of the
  \<^verbatim>\<open>if let\<close> succeed.\<close>

definition proxiedRedirectUrl ::
  "foundation \<Rightarrow> nat \<Rightarrow> URL \<Rightarrow> http_response \<Rightarrow> URL option" where
  "proxiedRedirectUrl lib port originalUrl httpResponse =
     (case valueForHTTPHeaderField (resp_headers httpResponse) ''Location'' of
        None \<Rightarrow> None
      | Some location \<Rightarrow>
          (case (case URL_relativeTo lib location originalUrl of
                   Some u \<Rightarrow> Some u
                 | None \<Rightarrow> URL_string location) of
             None \<Rightarrow> None
           | Some redirectUrl \<Rightarrow> createProxyUrl_ios port redirectUrl))"

definition fetchAndProxy_ios ::
  "foundation \<Rightarrow> (http_request \<Rightarrow> upstream_result) \<Rightarrow> ios_proxy \<Rightarrow> URL \<Rightarrow>
     (string \<times> string) list \<Rightarrow> exchange" where
  "fetchAndProxy_ios lib dataTask p originalUrl originalHeaders =
     (let request = buildRequest_ios p originalUrl originalHeaders in
      case dataTask request of
        TransportError description \<Rightarrow>
          \<lparr>upstreamRequests = [request],
           written = sendErrorResponse_ios 502 (''Upstream error: '' @ description)\<rparr>
      | NotHTTPResponse \<Rightarrow>
          \<lparr>upstreamRequests = [request],
           written = sendErrorResponse_ios 502 ''Invalid upstream response''\<rparr>
      | HTTPResponse httpResponse \<Rightarrow>
          (let statusCode = resp_code httpResponse in
           case (if isRedirectStatus statusCode
                 then proxiedRedirectUrl lib (i_port p) originalUrl httpResponse
                 else None) of
             Some proxied \<Rightarrow>
               \<lparr>upstreamRequests = [request],
                written = sendRedirectResponse_ios statusCode (absoluteString proxied)\<rparr>
           | None \<Rightarrow>
               \<lparr>upstreamRequests = [request],
                written = sendResponse_ios statusCode
                            (valueForHTTPHeaderField (resp_headers httpResponse) ''Content-Type'')
                            (resp_body httpResponse)\<rparr>))"

text \<open>The loop of \<^verbatim>\<open>processRequest\<close> over the lines after the request line.\<close>

fun parseOriginalHeaders ::
  "string list \<Rightarrow> (string \<times> string) list \<Rightarrow> (string \<times> string) list" where
  "parseOriginalHeaders [] originalHeaders = originalHeaders"
| "parseOriginalHeaders (line # rest) originalHeaders =
     (if line = [] then originalHeaders
      else if CHR '':'' \<in> set line then
        (let key = trimmingWhitespaces (takeWhile (\<lambda>c. c \<noteq> CHR '':'') line);
             value = trimmingWhitespaces (tl (dropWhile (\<lambda>c. c \<noteq> CHR '':'') line))
         in if lowercase key \<noteq> ''host''
            then parseOriginalHeaders rest (AList.update key value originalHeaders)
            else parseOriginalHeaders rest originalHeaders)
      else parseOriginalHeaders rest originalHeaders)"

definition processRequest_ios ::
  "foundation \<Rightarrow> (http_request \<Rightarrow> upstream_result) \<Rightarrow> ios_proxy \<Rightarrow> string \<Rightarrow> exchange" where
  "processRequest_ios lib dataTask p data =
     (if \<not> isUTF8 lib data then
        \<lparr>upstreamRequests = [], written = sendErrorResponse_ios 400 ''Invalid request''\<rparr>
      else
        (case split_crlf data of
           [] \<Rightarrow> \<lparr>upstreamRequests = [], written = sendErrorResponse_ios 400 ''Empty request''\<rparr>
         | requestLine # headerLines \<Rightarrow>
             (let requestParts = split_char (CHR '' '') requestLine in
              if \<not> length requestParts \<ge> 2 then
                \<lparr>upstreamRequests = [],
                 written = sendErrorResponse_ios 400 ''Invalid request line''\<rparr>
              else
                (let method = requestParts ! 0; path = requestParts ! 1 in
                 if method \<noteq> ''GET'' then
                   \<lparr>upstreamRequests = [],
                    written = sendErrorResponse_ios 405 ''Method not allowed''\<rparr>
                 else
                   (let originalHeaders = parseOriginalHeaders headerLines [];
                        originalUrlString = drop 1 path
                    in case URL_string originalUrlString of
                         None \<Rightarrow>
                           \<lparr>upstreamRequests = [],
                            written = sendErrorResponse_ios 400
                                        (''Invalid URL: '' @ originalUrlString)\<rparr>
                       | Some originalUrl \<Rightarrow>
                           fetchAndProxy_ios lib dataTask p originalUrl originalHeaders)))))"

section \<open>Query-embedding Swift proxy: \<^verbatim>\<open>unnamed/part_001\<close>\<close>

text \<open>
  The second Swift implementation embeds the target in the query and rewrites playlists.
  Its definitions carry the suffix \<open>_query\<close>.
\<close>

definition urlQueryAllowed :: "char \<Rightarrow> bool" where
  "urlQueryAllowed c \<longleftrightarrow>
     c \<in> set (''abcdefghijklmnopqrstuvwxyzABCDEFGHIJKLMNOPQRSTUVWXYZ0123456789'' @
               ''!$&'' @ [CHR 0x27] @ ''()*+,-./:;=?@_~'')"

text \<open>\<^verbatim>\<open>addingPercentEncoding(withAllowedCharacters: .urlQueryAllowed)\<close>; it returns \<^verbatim>\<open>nil\<close> only
  for a string that has no UTF-8 form, which a string of bytes always has.\<close>

definition addingPercentEncoding_urlQueryAllowed :: "string \<Rightarrow> string option" where
  "addingPercentEncoding_urlQueryAllowed s =
     Some (percentEncode urlQueryAllowed s)"

text \<open>\<^verbatim>\<open>removingPercentEncoding\<close>: every \<^verbatim>\<open>%XX\<close> becomes the byte; \<^verbatim>\<open>nil\<close> for an invalid escape.\<close>

fun removingPercentEncoding :: "string \<Rightarrow> string option" where
  "removingPercentEncoding [] = Some []"
| "removingPercentEncoding (c # cs) =
     (if c = CHR ''%'' then
        (case cs of
           h # l # rest \<Rightarrow>
             (case (hexValue h, hexValue l) of
                (Some a, Some b) \<Rightarrow>
                  map_option ((#) (char_of (16 * a + b))) (removingPercentEncoding rest)
              | _ \<Rightarrow> None)
         | _ \<Rightarrow> None)
      else map_option ((#) c) (removingPercentEncoding cs))"

definition createProxyUrl_query :: "nat \<Rightarrow> URL \<Rightarrow> URL option" where
  "createProxyUrl_query port originalUrl =
     (if \<not> port > 0 then None
      else (case addingPercentEncoding_urlQueryAllowed (absoluteString originalUrl) of
              None \<Rightarrow> None
            | Some encoded \<Rightarrow>
                URL_string (proxyUrlString port encoded)))"

definition resolveUrl_query :: "foundation \<Rightarrow> string \<Rightarrow> URL \<Rightarrow> URL option" where
  "resolveUrl_query lib urlString baseUrl =
     (if prefix ''http://'' urlString \<or> prefix ''https://'' urlString then URL_string urlString
      else URL_relativeTo lib urlString baseUrl)"

text \<open>
  \<^verbatim>\<open>rewriteURIAttributes\<close> collects the matches of the same pattern with
  \<^verbatim>\<open>NSRegularExpression\<close> and replaces them from the last to the first, which yields the string
  that replacing them from left to right yields.
\<close>

definition rewriteURIAttributes_query ::
  "foundation \<Rightarrow> nat \<Rightarrow> string \<Rightarrow> URL \<Rightarrow> string" where
  "rewriteURIAttributes_query lib port line baseUrl =
     replaceURIMatches
       (\<lambda>uri. case resolveUrl_query lib uri baseUrl of
                 Some resolvedUrl \<Rightarrow>
                   (case createProxyUrl_query port resolvedUrl of
                      Some proxyUrl \<Rightarrow> URI_attr @ absoluteString proxyUrl @ [DQUOTE]
                    | None \<Rightarrow> URI_attr @ uri @ [DQUOTE])
               | None \<Rightarrow> URI_attr @ uri @ [DQUOTE])
       line"

definition rewriteLine_query :: "foundation \<Rightarrow> nat \<Rightarrow> URL \<Rightarrow> string \<Rightarrow> string" where
  "rewriteLine_query lib port baseUrl line =
     (if str_contains line URI_attr then rewriteURIAttributes_query lib port line baseUrl
      else if \<not> prefix ''#'' line \<and> trimmingWhitespaces line \<noteq> [] then
        (case resolveUrl_query lib (trimmingWhitespaces line) baseUrl of
           Some segmentUrl \<Rightarrow>
             (case createProxyUrl_query port segmentUrl of
                Some proxyUrl \<Rightarrow> absoluteString proxyUrl
              | None \<Rightarrow> line)
         | None \<Rightarrow> line)
      else line)"

definition rewriteHLSManifest_query :: "foundation \<Rightarrow> nat \<Rightarrow> string \<Rightarrow> URL \<Rightarrow> string" where
  "rewriteHLSManifest_query lib port data baseUrl =
     (if \<not> isUTF8 lib data then data
      else fold (\<lambda>line rewritten. rewritten @ rewriteLine_query lib port baseUrl line @ [LF])
             (split_char LF data) [])"

definition httpStatusMessage_query :: "nat \<Rightarrow> string" where
  "httpStatusMessage_query code =
     (if code = 200 then ''OK''
      else if code = 400 then ''Bad Request''
      else if code = 404 then ''Not Found''
      else if code = 405 then ''Method Not Allowed''
      else if code = 500 then ''Internal Server Error''
      else if code = 502 then ''Bad Gateway''
      else ''Unknown'')"

definition sendResponse_query_fields ::
  "(string \<times> string) list \<Rightarrow> string \<Rightarrow> bool \<Rightarrow> (string \<times> string) list" where
  "sendResponse_query_fields headers data isManifest =
     [(''Access-Control-Allow-Origin'', ''*'')] @
     filter (\<lambda>(key, value). \<not> skippedHeader key) headers @
     [(''Content-Length'', show_nat (length data))]"

definition sendResponse_query ::
  "nat \<Rightarrow> (string \<times> string) list \<Rightarrow> string \<Rightarrow> bool \<Rightarrow> string" where
  "sendResponse_query statusCode headers data isManifest =
     ''HTTP/1.1 '' @ show_nat statusCode @ '' '' @ httpStatusMessage_query statusCode @ CRLF @
     concat (map headerLine (sendResponse_query_fields headers data isManifest)) @
     CRLF @ data"

definition sendErrorResponse_query :: "nat \<Rightarrow> string \<Rightarrow> string" where
  "sendErrorResponse_query statusCode message =
     sendResponse_query statusCode [(''Content-Type'', ''text/plain'')] message False"

definition isManifest_query :: "foundation \<Rightarrow> string \<Rightarrow> URL \<Rightarrow> bool" where
  "isManifest_query lib contentType originalUrl \<longleftrightarrow>
     str_contains contentType ''mpegurl'' \<or> str_contains contentType ''x-mpegURL'' \<or>
     lowercase (pathExtension lib originalUrl) = ''m3u8''"

definition buildRequest_query :: "ios_proxy \<Rightarrow> URL \<Rightarrow> http_request" where
  "buildRequest_query p originalUrl =
     \<lparr>req_url = absoluteString originalUrl,
      req_headers =
        fold (\<lambda>(key, value) hdrs. setValue value key hdrs)
          (case i_dynamicHeadersProvider p of None \<Rightarrow> [] | Some dynamicHeaders \<Rightarrow> dynamicHeaders)
          (fold (\<lambda>(key, value) hdrs. setValue value key hdrs) (i_staticHeaders p) [])\<rparr>"

definition fetchAndProxy_query ::
  "foundation \<Rightarrow> (http_request \<Rightarrow> upstream_result) \<Rightarrow> ios_proxy \<Rightarrow> URL \<Rightarrow> exchange" where
  "fetchAndProxy_query lib dataTask p originalUrl =
     (let request = buildRequest_query p originalUrl in
      case dataTask request of
        TransportError description \<Rightarrow>
          \<lparr>upstreamRequests = [request],
           written = sendErrorResponse_query 502 (''Upstream error: '' @ description)\<rparr>
      | NotHTTPResponse \<Rightarrow>
          \<lparr>upstreamRequests = [request],
           written = sendErrorResponse_query 502 ''Invalid upstream response''\<rparr>
      | HTTPResponse httpResponse \<Rightarrow>
          (let contentType =
                 (case valueForHTTPHeaderField (resp_headers httpResponse) ''Content-Type'' of
                    Some t \<Rightarrow> t | None \<Rightarrow> []);
               isManifest = isManifest_query lib contentType originalUrl;
               responseData =
                 (if isManifest
                  then rewriteHLSManifest_query lib (i_port p) (resp_body httpResponse) originalUrl
                  else resp_body httpResponse)
           in \<lparr>upstreamRequests = [request],
               written = sendResponse_query (resp_code httpResponse)
                           (resp_headers httpResponse) responseData isManifest\<rparr>))"

definition processRequest_query ::
  "foundation \<Rightarrow> (http_request \<Rightarrow> upstream_result) \<Rightarrow> ios_proxy \<Rightarrow> string \<Rightarrow> exchange" where
  "processRequest_query lib dataTask p data =
     (if \<not> isUTF8 lib data then
        \<lparr>upstreamRequests = [], written = sendErrorResponse_query 400 ''Invalid request''\<rparr>
      else
        (case split_crlf data of
           [] \<Rightarrow> \<lparr>upstreamRequests = [], written = sendErrorResponse_query 400 ''Empty request''\<rparr>
         | requestLine # headerLines \<Rightarrow>
             (let requestParts = split_char (CHR '' '') requestLine in
              if \<not> length requestParts \<ge> 2 then
                \<lparr>upstreamRequests = [],
                 written = sendErrorResponse_query 400 ''Invalid request line''\<rparr>
              else
                (let method = requestParts ! 0; path = requestParts ! 1 in
                 if method \<noteq> ''GET'' then
                   \<lparr>upstreamRequests = [],
                    written = sendErrorResponse_query 405 ''Method not allowed''\<rparr>
                 else
                   (case (if prefix ''/proxy?url='' path
                          then Option.bind
                                 (removingPercentEncoding (drop (length ''/proxy?url='') path))
                                 URL_string
                          else None) of
                      None \<Rightarrow>
                        \<lparr>upstreamRequests = [],
                         written = sendErrorResponse_query 400 ''Invalid proxy URL''\<rparr>
                    | Some originalUrl \<Rightarrow> fetchAndProxy_query lib dataTask p originalUrl)))))"

section \<open>Properties of \<^verbatim>\<open>formatCmcdHeaders\<close>\<close>

lemma push_defined_Nil_iff: "push_defined field fmt parts = [] \<longleftrightarrow> field = None \<and> parts = []"
  by (cases field) (simp_all add: push_defined_def)

lemma objectParts_Nil_iff:
  "objectParts ops data = [] \<longleftrightarrow>
     cmcd_br data = None \<and> cmcd_d data = None \<and> cmcd_ot data = None \<and> cmcd_tb data = None"
  unfolding objectParts_def push_defined_Nil_iff by blast

lemma requestParts_Nil_iff:
  "requestParts ops data = [] \<longleftrightarrow>
     cmcd_bl data = None \<and> cmcd_dl data = None \<and> cmcd_mtp data = None \<and>
     cmcd_nor data = None \<and> cmcd_nrr data = None \<and> cmcd_su data = None"
  unfolding requestParts_def push_defined_Nil_iff by blast

lemma sessionParts_Nil_iff:
  "sessionParts ops data = [] \<longleftrightarrow>
     cmcd_cid data = None \<and> cmcd_pr data = None \<and> cmcd_sf data = None \<and>
     cmcd_sid data = None \<and> cmcd_st data = None \<and> cmcd_v data = None"
  unfolding sessionParts_def push_defined_Nil_iff by blast

lemma statusParts_Nil_iff:
  "statusParts ops data = [] \<longleftrightarrow> cmcd_bs data = None \<and> cmcd_rtp data = None"
  unfolding statusParts_def push_defined_Nil_iff by blast

lemma set_group_same:
  "set_group name parts headers name =
     (if parts = [] then headers name else Some (join_comma (filter (\<lambda>p. p \<noteq> []) parts)))"
  by (simp add: set_group_def)

lemma set_group_other: "name' \<noteq> name \<Longrightarrow> set_group name parts headers name' = headers name'"
  by (simp add: set_group_def)

lemma formatCmcdHeaders_Object:
  "formatCmcdHeaders ops data ''CMCD-Object'' =
     (if objectParts ops data = [] then None
      else Some (join_comma (filter (\<lambda>p. p \<noteq> []) (objectParts ops data))))"
  by (simp add: formatCmcdHeaders_def set_group_other set_group_same)

lemma formatCmcdHeaders_Request:
  "formatCmcdHeaders ops data ''CMCD-Request'' =
     (if requestParts ops data = [] then None
      else Some (join_comma (filter (\<lambda>p. p \<noteq> []) (requestParts ops data))))"
  by (simp add: formatCmcdHeaders_def set_group_other set_group_same)

lemma formatCmcdHeaders_Session:
  "formatCmcdHeaders ops data ''CMCD-Session'' =
     (if sessionParts ops data = [] then None
      else Some (join_comma (filter (\<lambda>p. p \<noteq> []) (sessionParts ops data))))"
  by (simp add: formatCmcdHeaders_def set_group_other set_group_same)

lemma formatCmcdHeaders_Status:
  "formatCmcdHeaders ops data ''CMCD-Status'' =
     (if statusParts ops data = [] then None
      else Some (join_comma (filter (\<lambda>p. p \<noteq> []) (statusParts ops data))))"
  by (simp add: formatCmcdHeaders_def set_group_other set_group_same)

lemma requestParts_only_su_false:
  assumes "cmcd_su data = Some False" "cmcd_bl data = None" "cmcd_dl data = None"
    "cmcd_mtp data = None" "cmcd_nor data = None" "cmcd_nrr data = None"
  shows "requestParts ops data = [[]]"
  using assms by (simp add: requestParts_def push_defined_def formatValue_def)

lemma statusParts_only_bs_false:
  assumes "cmcd_bs data = Some False" "cmcd_rtp data = None"
  shows "statusParts ops data = [[]]"
  using assms by (simp add: statusParts_def push_defined_def formatValue_def)

text \<open>
  Claim C10.  When the only defined key of the request group is \<^verbatim>\<open>su: false\<close> (of the status
  group: \<^verbatim>\<open>bs: false\<close>), \<^verbatim>\<open>formatCmcdHeaders\<close> still emits the group's header, with the empty
  string as its value; and each of the four group headers is present in the result exactly
  when at least one key of its group is defined.
\<close>

theorem formatCmcdHeaders_false_boolean_group:
  "(cmcd_su data = Some False \<and> cmcd_bl data = None \<and> cmcd_dl data = None \<and>
    cmcd_mtp data = None \<and> cmcd_nor data = None \<and> cmcd_nrr data = None
      \<longrightarrow> formatCmcdHeaders ops data ''CMCD-Request'' = Some [])
   \<and> (cmcd_bs data = Some False \<and> cmcd_rtp data = None
      \<longrightarrow> formatCmcdHeaders ops data ''CMCD-Status'' = Some [])
   \<and> (formatCmcdHeaders ops data ''CMCD-Object'' \<noteq> None \<longleftrightarrow>
        cmcd_br data \<noteq> None \<or> cmcd_d data \<noteq> None \<or> cmcd_ot data \<noteq> None \<or> cmcd_tb data \<noteq> None)
   \<and> (formatCmcdHeaders ops data ''CMCD-Request'' \<noteq> None \<longleftrightarrow>
        cmcd_bl data \<noteq> None \<or> cmcd_dl data \<noteq> None \<or> cmcd_mtp data \<noteq> None \<or>
        cmcd_nor data \<noteq> None \<or> cmcd_nrr data \<noteq> None \<or> cmcd_su data \<noteq> None)
   \<and> (formatCmcdHeaders ops data ''CMCD-Session'' \<noteq> None \<longleftrightarrow>
        cmcd_cid data \<noteq> None \<or> cmcd_pr data \<noteq> None \<or> cmcd_sf data \<noteq> None \<or>
        cmcd_sid data \<noteq> None \<or> cmcd_st data \<noteq> None \<or> cmcd_v data \<noteq> None)
   \<and> (formatCmcdHeaders ops data ''CMCD-Status'' \<noteq> None \<longleftrightarrow>
        cmcd_bs data \<noteq> None \<or> cmcd_rtp data \<noteq> None)
   \<and> dom (formatCmcdHeaders ops data) \<subseteq>
        {''CMCD-Object'', ''CMCD-Request'', ''CMCD-Session'', ''CMCD-Status''}"
proof (intro conjI impI)
  assume "cmcd_su data = Some False \<and> cmcd_bl data = None \<and> cmcd_dl data = None \<and>
    cmcd_mtp data = None \<and> cmcd_nor data = None \<and> cmcd_nrr data = None"
  then have "requestParts ops data = [[]]"
    by (intro requestParts_only_su_false) simp_all
  then show "formatCmcdHeaders ops data ''CMCD-Request'' = Some []"
    by (simp add: formatCmcdHeaders_Request)
next
  assume "cmcd_bs data = Some False \<and> cmcd_rtp data = None"
  then have "statusParts ops data = [[]]"
    by (intro statusParts_only_bs_false) simp_all
  then show "formatCmcdHeaders ops data ''CMCD-Status'' = Some []"
    by (simp add: formatCmcdHeaders_Status)
next
  show "formatCmcdHeaders ops data ''CMCD-Object'' \<noteq> None \<longleftrightarrow>
        cmcd_br data \<noteq> None \<or> cmcd_d data \<noteq> None \<or> cmcd_ot data \<noteq> None \<or> cmcd_tb data \<noteq> None"
    unfolding formatCmcdHeaders_Object using objectParts_Nil_iff [of ops data] by auto
next
  show "formatCmcdHeaders ops data ''CMCD-Request'' \<noteq> None \<longleftrightarrow>
        cmcd_bl data \<noteq> None \<or> cmcd_dl data \<noteq> None \<or> cmcd_mtp data \<noteq> None \<or>
        cmcd_nor data \<noteq> None \<or> cmcd_nrr data \<noteq> None \<or> cmcd_su data \<noteq> None"
    unfolding formatCmcdHeaders_Request using requestParts_Nil_iff [of ops data] by auto
next
  show "formatCmcdHeaders ops data ''CMCD-Session'' \<noteq> None \<longleftrightarrow>
        cmcd_cid data \<noteq> None \<or> cmcd_pr data \<noteq> None \<or> cmcd_sf data \<noteq> None \<or>
        cmcd_sid data \<noteq> None \<or> cmcd_st data \<noteq> None \<or> cmcd_v data \<noteq> None"
    unfolding formatCmcdHeaders_Session using sessionParts_Nil_iff [of ops data] by auto
next
  show "formatCmcdHeaders ops data ''CMCD-Status'' \<noteq> None \<longleftrightarrow>
        cmcd_bs data \<noteq> None \<or> cmcd_rtp data \<noteq> None"
    unfolding formatCmcdHeaders_Status using statusParts_Nil_iff [of ops data] by auto
next
  show "dom (formatCmcdHeaders ops data) \<subseteq>
        {''CMCD-Object'', ''CMCD-Request'', ''CMCD-Session'', ''CMCD-Status''}"
    by (auto simp: formatCmcdHeaders_def set_group_def split: if_splits)
qed

theorem formatCmcdHeaders_false_boolean_group_witness:
  "formatCmcdHeaders \<lparr>isInteger = (\<lambda>n::nat. True), toString = show_nat, toFixed0 = show_nat\<rparr>
     \<lparr>cmcd_sid = None, cmcd_cid = None, cmcd_br = None, cmcd_d = None, cmcd_ot = None,
      cmcd_tb = None, cmcd_bl = None, cmcd_dl = None, cmcd_mtp = None, cmcd_nor = None,
      cmcd_nrr = None, cmcd_su = Some False, cmcd_bs = Some False, cmcd_pr = None,
      cmcd_sf = None, cmcd_st = None, cmcd_v = None, cmcd_rtp = None\<rparr> ''CMCD-Request'' = Some []
   \<and> formatCmcdHeaders \<lparr>isInteger = (\<lambda>n::nat. True), toString = show_nat, toFixed0 = show_nat\<rparr>
     \<lparr>cmcd_sid = None, cmcd_cid = None, cmcd_br = None, cmcd_d = None, cmcd_ot = None,
      cmcd_tb = None, cmcd_bl = None, cmcd_dl = None, cmcd_mtp = None, cmcd_nor = None,
      cmcd_nrr = None, cmcd_su = Some False, cmcd_bs = Some False, cmcd_pr = None,
      cmcd_sf = None, cmcd_st = None, cmcd_v = None, cmcd_rtp = None\<rparr> ''CMCD-Status'' = Some []"
  using formatCmcdHeaders_false_boolean_group
    [of "\<lparr>cmcd_sid = None, cmcd_cid = None, cmcd_br = None, cmcd_d = None, cmcd_ot = None,
      cmcd_tb = None, cmcd_bl = None, cmcd_dl = None, cmcd_mtp = None, cmcd_nor = None,
      cmcd_nrr = None, cmcd_su = Some False, cmcd_bs = Some False, cmcd_pr = None,
      cmcd_sf = None, cmcd_st = None, cmcd_v = None, cmcd_rtp = None\<rparr>"
     "\<lparr>isInteger = (\<lambda>n::nat. True), toString = show_nat, toFixed0 = show_nat\<rparr>"]
  by simp

section \<open>Properties of the URL codecs\<close>

subsection \<open>Legal URL strings\<close>

lemma digit_char: "n < 10 \<Longrightarrow> ''0123456789'' ! n \<in> set ''0123456789''"
  by (rule nth_mem) simp

lemma show_nat_digits: "set (show_nat n) \<subseteq> set ''0123456789''"
proof (induction n rule: show_nat.induct)
  case (1 n)
  show ?case
  proof (cases "n < 10")
    case True
    then show ?thesis using digit_char [of n] by (subst show_nat.simps) simp
  next
    case False
    have "n mod 10 < 10" by simp
    then have "''0123456789'' ! (n mod 10) \<in> set ''0123456789''" by (rule digit_char)
    with False 1 show ?thesis by (subst show_nat.simps) simp
  qed
qed

lemma show_nat_not_Nil: "show_nat n \<noteq> []"
  by (subst show_nat.simps) simp

lemma percent_not_legal: "\<not> urlLegalChar (CHR ''%'')"
  by code_simp

lemma hash_not_legal: "\<not> urlLegalChar (CHR ''#'')"
  by code_simp

lemma legalURLScan_plain_prefix:
  "\<forall>c \<in> set a. urlLegalChar c \<Longrightarrow> legalURLScan h (a @ b) = legalURLScan h b"
proof (induction a)
  case Nil
  show ?case by simp
next
  case (Cons x a)
  then have "urlLegalChar x" by simp
  then have "x \<noteq> CHR ''%''" "x \<noteq> CHR ''#''"
    using percent_not_legal hash_not_legal by auto
  with Cons show ?case by simp
qed

lemma digits_legal: "\<forall>c \<in> set ''0123456789''. urlLegalChar c"
  by code_simp

lemma localhost_legal: "\<forall>c \<in> set ''http://localhost:''. urlLegalChar c"
  by code_simp

lemma slash_legal: "\<forall>c \<in> set ''/''. urlLegalChar c"
  by code_simp

lemma proxyBaseUrl_legal_chars: "\<forall>c \<in> set (proxyBaseUrl port). urlLegalChar c"
proof
  fix c assume "c \<in> set (proxyBaseUrl port)"
  then have "c \<in> set ''http://localhost:'' \<or> c \<in> set (show_nat port) \<or> c \<in> set ''/''"
    unfolding proxyBaseUrl_def by (simp only: set_append Un_iff)
  then show "urlLegalChar c"
    using localhost_legal digits_legal slash_legal show_nat_digits [of port] by blast
qed

lemma isLegal_proxied: "isLegalURLString s \<Longrightarrow> isLegalURLString (proxyBaseUrl port @ s)"
  using legalURLScan_plain_prefix [of "proxyBaseUrl port" False s] proxyBaseUrl_legal_chars [of port]
  by (simp add: isLegalURLString_def)

lemma absoluteString_legal: "isLegalURLString (absoluteString u)"
  using absoluteString [of u] by simp

lemma URL_string_absoluteString: "URL_string (absoluteString u) = Some u"
  by (simp add: URL_string_def absoluteString_legal absoluteString_inverse)

lemma createProxyUrl_ios_running:
  "port > 0 \<Longrightarrow>
     createProxyUrl_ios port u = Some (URL_of_string (proxyBaseUrl port @ absoluteString u))"
  by (simp add: createProxyUrl_ios_def URL_string_def isLegal_proxied absoluteString_legal)

lemma unproxiedUrl_proxied:
  "unproxiedUrl port (URL_of_string (proxyBaseUrl port @ absoluteString u)) = Some u"
  by (simp add: unproxiedUrl_def URL_of_string_inverse isLegal_proxied absoluteString_legal
      URL_string_absoluteString)

subsection \<open>Percent escapes\<close>

lemma hexValue_hexDigitUpper: "n < 16 \<Longrightarrow> hexValue (hexDigitUpper n) = Some n"
proof -
  assume "n < 16"
  then have "n \<in> set [0..<16]" by simp
  moreover have "\<forall>k \<in> set [0..<16]. hexValue (hexDigitUpper k) = Some k"
    by code_simp
  ultimately show ?thesis by blast
qed

lemma byte_nibbles: "(of_char c :: nat) div 16 < 16" "(of_char c :: nat) mod 16 < 16"
proof -
  have "(of_char c :: nat) < 16 * 16"
    using nat_of_char_less_256 [of c] by simp
  then show "(of_char c :: nat) div 16 < 16" "(of_char c :: nat) mod 16 < 16"
    by (simp_all add: less_mult_imp_div_less)
qed

lemma decode_percentEscape:
  "URLDecoder_decode (percentEscape c @ s) = map_option ((#) c) (URLDecoder_decode s)"
  by (simp add: percentEscape_def hexValue_hexDigitUpper byte_nibbles)

lemma plus_needs_encoding: "\<not> dontNeedEncoding (CHR ''+'')"
  by code_simp

lemma percent_needs_encoding: "\<not> dontNeedEncoding (CHR ''%'')"
  by code_simp

lemma space_needs_encoding: "\<not> dontNeedEncoding (CHR '' '')"
  by code_simp

lemma URLEncoder_encode_Nil: "URLEncoder_encode [] = []"
  by (simp add: URLEncoder_encode_def)

lemma URLEncoder_encode_Cons:
  "URLEncoder_encode (c # s) =
     (if dontNeedEncoding c then [c] else if c = CHR '' '' then ''+'' else percentEscape c)
       @ URLEncoder_encode s"
  by (simp add: URLEncoder_encode_def)

lemma URLDecoder_decode_encode: "URLDecoder_decode (URLEncoder_encode s) = Some s"
proof (induction s)
  case Nil
  show ?case by (simp add: URLEncoder_encode_Nil)
next
  case (Cons c s)
  show ?case
  proof (cases "dontNeedEncoding c")
    case True
    then have "c \<noteq> CHR ''+''" "c \<noteq> CHR ''%''"
      using plus_needs_encoding percent_needs_encoding by auto
    with True Cons show ?thesis by (simp add: URLEncoder_encode_Cons)
  next
    case False
    show ?thesis
    proof (cases "c = CHR '' ''")
      case True
      with False Cons show ?thesis by (simp add: URLEncoder_encode_Cons)
    next
      case ns: False
      with False Cons show ?thesis
        by (simp add: URLEncoder_encode_Cons decode_percentEscape del: URLDecoder_decode.simps)
    qed
  qed
qed

lemma hexDigitUpper_not_space: "n < 16 \<Longrightarrow> hexDigitUpper n \<noteq> CHR '' ''"
proof -
  assume "n < 16"
  then have "n \<in> set [0..<16]" by simp
  moreover have "\<forall>k \<in> set [0..<16]. hexDigitUpper k \<noteq> CHR '' ''"
    by code_simp
  ultimately show ?thesis by blast
qed

lemma URLEncoder_encode_no_space: "CHR '' '' \<notin> set (URLEncoder_encode s)"
proof (induction s)
  case Nil
  show ?case by (simp add: URLEncoder_encode_Nil)
next
  case (Cons c s)
  have "hexDigitUpper (of_char c div 16) \<noteq> CHR '' ''" "hexDigitUpper (of_char c mod 16) \<noteq> CHR '' ''"
    by (rule hexDigitUpper_not_space, rule byte_nibbles)+
  then have "CHR '' '' \<notin> set (percentEscape c)"
    by (auto simp: percentEscape_def)
  with Cons show ?case
    using space_needs_encoding by (auto simp: URLEncoder_encode_Cons)
qed

subsection \<open>Splitting\<close>

lemma split_char_no_sep: "c \<notin> set s \<Longrightarrow> split_char c s = [s]"
  by (induction s) auto

lemma split_char_append: "c \<notin> set a \<Longrightarrow> split_char c (a @ c # b) = a # split_char c b"
  by (induction a) auto

lemma substringAfter_prefix:
  "s \<noteq> [] \<Longrightarrow> prefix d s \<Longrightarrow> substringAfter s d = drop (length d) s"
  by (cases s) (simp_all add: substringAfter_def)

lemma request_line_parts:
  assumes "CHR '' '' \<notin> set path"
  shows "split_char (CHR '' '') (''GET '' @ path @ '' HTTP/1.1'') = [''GET'', path, ''HTTP/1.1'']"
proof -
  have 1: "split_char (CHR '' '') (''GET '' @ path @ '' HTTP/1.1'')
          = ''GET'' # split_char (CHR '' '') (path @ CHR '' '' # ''HTTP/1.1'')"
    by simp
  have 2: "split_char (CHR '' '') (path @ CHR '' '' # ''HTTP/1.1'')
          = path # split_char (CHR '' '') ''HTTP/1.1''"
    using assms by (rule split_char_append)
  have 3: "split_char (CHR '' '') ''HTTP/1.1'' = [''HTTP/1.1'']"
    by (rule split_char_no_sep) simp
  show ?thesis unfolding 1 2 3 ..
qed

lemma handleClient_GET:
  assumes "CHR '' '' \<notin> set path" and "prefix ''/proxy?url='' path"
    and "URLDecoder_decode (substringAfter path ''/proxy?url='') = Some originalUrl"
  shows "handleClient lib execute p ((''GET '' @ path @ '' HTTP/1.1'') # headerLines) =
           fetchAndProxy_android lib execute p originalUrl"
  unfolding handleClient_def list.case request_line_parts [OF assms(1)] Let_def
  using assms(2,3) by simp

lemma proxy_path_after:
  "substringAfter (''/proxy?url='' @ enc) ''/proxy?url='' = enc"
  using substringAfter_prefix [of "''/proxy?url='' @ enc" "''/proxy?url=''"] by simp

subsection \<open>Query-embedding Swift codec\<close>

lemma urlQueryAllowed_legal: "urlQueryAllowed c \<Longrightarrow> urlLegalChar c"
proof -
  have "\<forall>c \<in> set (''abcdefghijklmnopqrstuvwxyzABCDEFGHIJKLMNOPQRSTUVWXYZ0123456789'' @
               ''!$&'' @ [CHR 0x27] @ ''()*+,-./:;=?@_~''). urlLegalChar c"
    by code_simp
  then show "urlQueryAllowed c \<Longrightarrow> urlLegalChar c"
    unfolding urlQueryAllowed_def by blast
qed

lemma legalURLScan_percentEscape:
  "legalURLScan h (percentEscape c @ s) = legalURLScan h s"
  by (simp add: percentEscape_def hexValue_hexDigitUpper byte_nibbles)

lemma percentEncode_Cons:
  "percentEncode allowed (c # s) =
     (if allowed c then [c] else percentEscape c) @ percentEncode allowed s"
  by (simp add: percentEncode_def)

lemma legalURLScan_encoded: "legalURLScan h (percentEncode urlQueryAllowed s)"
proof (induction s)
  case Nil
  show ?case by (simp add: percentEncode_def)
next
  case (Cons c s)
  show ?case
  proof (cases "urlQueryAllowed c")
    case True
    then have "urlLegalChar c" by (rule urlQueryAllowed_legal)
    then have "c \<noteq> CHR ''%''" "c \<noteq> CHR ''#''" "urlLegalChar c"
      using percent_not_legal hash_not_legal by auto
    with True Cons show ?thesis by (simp add: percentEncode_Cons)
  next
    case False
    with Cons show ?thesis
      by (simp add: percentEncode_Cons legalURLScan_percentEscape del: legalURLScan.simps)
  qed
qed

lemma queryBase_legal_chars:
  "\<forall>c \<in> set (''http://127.0.0.1:'' @ show_nat port @ ''/proxy?url=''). urlLegalChar c"
proof
  fix c assume "c \<in> set (''http://127.0.0.1:'' @ show_nat port @ ''/proxy?url='')"
  then have "c \<in> set ''http://127.0.0.1:'' \<or> c \<in> set (show_nat port) \<or> c \<in> set ''/proxy?url=''"
    by (simp only: set_append Un_iff)
  moreover have "\<forall>c \<in> set ''http://127.0.0.1:''. urlLegalChar c" by code_simp
  moreover have "\<forall>c \<in> set ''/proxy?url=''. urlLegalChar c" by code_simp
  ultimately show "urlLegalChar c"
    using digits_legal show_nat_digits [of port] by blast
qed

lemma isLegal_query_proxy:
  "isLegalURLString (proxyUrlString port (percentEncode urlQueryAllowed s))"
proof -
  have "proxyUrlString port (percentEncode urlQueryAllowed s) =
          (''http://127.0.0.1:'' @ show_nat port @ ''/proxy?url='') @ percentEncode urlQueryAllowed s"
    by (simp add: proxyUrlString_def)
  moreover have "isLegalURLString ((''http://127.0.0.1:'' @ show_nat port @ ''/proxy?url='') @
     percentEncode urlQueryAllowed s)"
    unfolding isLegalURLString_def
    using legalURLScan_plain_prefix [OF queryBase_legal_chars] legalURLScan_encoded
    by simp
  ultimately show ?thesis by simp
qed

lemma createProxyUrl_query_running:
  "port > 0 \<Longrightarrow>
     createProxyUrl_query port u =
       Some (URL_of_string (proxyUrlString port (percentEncode urlQueryAllowed (absoluteString u))))"
  using isLegal_query_proxy [of port "absoluteString u"]
  by (simp add: createProxyUrl_query_def addingPercentEncoding_urlQueryAllowed_def URL_string_def)

text \<open>
  Claim C2.  Decoding the proxy URL made for a target yields the target again.  iOS
  (path-embedding): for every URL \<open>u\<close>, while the proxy is running, \<^verbatim>\<open>unproxiedUrl\<close> applied to
  the result of \<^verbatim>\<open>createProxyUrl\<close> returns \<open>u\<close>.  Android (query-embedding): for every target
  string \<open>s\<close>, \<^verbatim>\<open>createProxyUrl\<close> returns the proxy origin followed by the path
  \<^verbatim>\<open>/proxy?url=\<close> and the encoded target, the decoding \<^verbatim>\<open>handleClient\<close> applies to that path
  yields \<open>s\<close>, and a GET request for that path makes \<^verbatim>\<open>handleClient\<close> fetch exactly \<open>s\<close>.
\<close>

theorem url_codec_round_trip:
  "(port > 0 \<longrightarrow> Option.bind (createProxyUrl_ios port u) (unproxiedUrl port) = Some u)
   \<and> (port \<noteq> 0 \<longrightarrow>
        createProxyUrl_android port s =
          Some (''http://127.0.0.1:'' @ show_nat port @ ''/proxy?url='' @ URLEncoder_encode s)
        \<and> URLDecoder_decode (substringAfter (''/proxy?url='' @ URLEncoder_encode s) ''/proxy?url='')
            = Some s
        \<and> handleClient lib execute p
             ((''GET '' @ (''/proxy?url='' @ URLEncoder_encode s) @ '' HTTP/1.1'') # headerLines)
            = fetchAndProxy_android lib execute p s)"
proof (intro conjI impI)
  assume "port > 0"
  then show "Option.bind (createProxyUrl_ios port u) (unproxiedUrl port) = Some u"
    by (simp add: createProxyUrl_ios_running unproxiedUrl_proxied)
next
  assume "port \<noteq> 0"
  then show "createProxyUrl_android port s =
          Some (''http://127.0.0.1:'' @ show_nat port @ ''/proxy?url='' @ URLEncoder_encode s)"
    by (simp add: createProxyUrl_android_def proxyUrlString_def)
next
  show dec: "URLDecoder_decode (substringAfter (''/proxy?url='' @ URLEncoder_encode s) ''/proxy?url='')
            = Some s"
    by (simp only: proxy_path_after URLDecoder_decode_encode)
  have "CHR '' '' \<notin> set (''/proxy?url='' @ URLEncoder_encode s)"
    using URLEncoder_encode_no_space [of s] by simp
  moreover have "prefix ''/proxy?url='' (''/proxy?url='' @ URLEncoder_encode s)"
    by (rule prefixI) simp
  ultimately show "handleClient lib execute p
             ((''GET '' @ (''/proxy?url='' @ URLEncoder_encode s) @ '' HTTP/1.1'') # headerLines)
            = fetchAndProxy_android lib execute p s"
    using dec by (rule handleClient_GET)
qed

theorem url_codec_round_trip_witness:
  "Option.bind (createProxyUrl_ios 8080 (URL_of_string ''https://cdn.example/media/index.m3u8''))
       (unproxiedUrl 8080)
     = Some (URL_of_string ''https://cdn.example/media/index.m3u8'')
   \<and> createProxyUrl_android 8080 ''https://cdn.example/media/index.m3u8''
     = Some ''http://127.0.0.1:8080/proxy?url=https%3A%2F%2Fcdn.example%2Fmedia%2Findex.m3u8''
   \<and> URLDecoder_decode ''https%3A%2F%2Fcdn.example%2Fmedia%2Findex.m3u8''
     = Some ''https://cdn.example/media/index.m3u8''
   \<and> handleClient
         \<lparr>URI_valid = (\<lambda>s. True), URI_getPath = (\<lambda>s. None), URI_resolve = (\<lambda>b r. None)\<rparr>
         (\<lambda>r. Inl ''timeout'')
         \<lparr>serverSocket = Some 1, executor = Some 1, a_port = 8080, isRunning = True,
          a_staticHeaders = [], a_dynamicHeadersProvider = None,
          closedServerSockets = {}, shutDownExecutors = {},
          clientSockets = [], closedClientSockets = {}\<rparr>
         [''GET /proxy?url=https%3A%2F%2Fcdn.example%2Fmedia%2Findex.m3u8 HTTP/1.1'', '''']
     = fetchAndProxy_android
         \<lparr>URI_valid = (\<lambda>s. True), URI_getPath = (\<lambda>s. None), URI_resolve = (\<lambda>b r. None)\<rparr>
         (\<lambda>r. Inl ''timeout'')
         \<lparr>serverSocket = Some 1, executor = Some 1, a_port = 8080, isRunning = True,
          a_staticHeaders = [], a_dynamicHeadersProvider = None,
          closedServerSockets = {}, shutDownExecutors = {},
          clientSockets = [], closedClientSockets = {}\<rparr>
         ''https://cdn.example/media/index.m3u8''"
proof -
  have enc: "URLEncoder_encode ''https://cdn.example/media/index.m3u8''
               = ''https%3A%2F%2Fcdn.example%2Fmedia%2Findex.m3u8''"
    by code_simp
  have port: "show_nat 8080 = ''8080''"
    by (simp add: show_nat.simps)
  show ?thesis
    using url_codec_round_trip
      [of 8080 "URL_of_string ''https://cdn.example/media/index.m3u8''"
          "''https://cdn.example/media/index.m3u8''"
          "\<lparr>URI_valid = (\<lambda>s. True), URI_getPath = (\<lambda>s. None), URI_resolve = (\<lambda>b r. None)\<rparr>"
          "(\<lambda>r. Inl ''timeout'')"
          "\<lparr>serverSocket = Some 1, executor = Some 1, a_port = 8080, isRunning = True,
            a_staticHeaders = [], a_dynamicHeadersProvider = None,
            closedServerSockets = {}, shutDownExecutors = {},
            clientSockets = [], closedClientSockets = {}\<rparr>"
          "['''']"]
    unfolding enc port proxy_path_after
    by simp
qed

text \<open>
  Claim C9.  \<^verbatim>\<open>createProxyUrl\<close> returns null exactly when the proxy is not running (its port is
  0): in the TypeScript API for every string, in both Swift proxies for every URL, and in the
  Kotlin proxy for every string.
\<close>

theorem createProxyUrl_null_iff_not_running:
  "(createProxyUrl_ts port s = None \<longleftrightarrow> port = 0)
   \<and> (createProxyUrl_ios port u = None \<longleftrightarrow> port = 0)
   \<and> (createProxyUrl_query port u = None \<longleftrightarrow> port = 0)
   \<and> (createProxyUrl_android port s = None \<longleftrightarrow> port = 0)"
proof (intro conjI)
  show "createProxyUrl_ts port s = None \<longleftrightarrow> port = 0"
    by (simp add: createProxyUrl_ts_def)
  show "createProxyUrl_ios port u = None \<longleftrightarrow> port = 0"
    using createProxyUrl_ios_running [of port u] by (cases "port = 0") (simp_all add: createProxyUrl_ios_def)
  show "createProxyUrl_query port u = None \<longleftrightarrow> port = 0"
    using createProxyUrl_query_running [of port u] by (cases "port = 0") (simp_all add: createProxyUrl_query_def)
  show "createProxyUrl_android port s = None \<longleftrightarrow> port = 0"
    by (simp add: createProxyUrl_android_def)
qed

section \<open>Request handling\<close>

lemma split_crlf_not_Nil: "split_crlf s \<noteq> []"
  by (induction s rule: split_crlf.induct) (auto split: list.splits)

lemma show_nat_405: "show_nat 405 = ''405''"
  by (simp add: show_nat.simps)

text \<open>
  Claim C7.  A request whose request line has at least two parts and whose method is not
  \<^verbatim>\<open>GET\<close> is answered with status 405 and no upstream request is issued on that connection, in
  the Kotlin proxy (\<^verbatim>\<open>handleClient\<close>) and in the Swift proxy (\<^verbatim>\<open>processRequest\<close>).
\<close>

theorem non_GET_answered_405_without_fetch:
  "(2 \<le> length (split_char (CHR '' '') requestLine) \<and>
    split_char (CHR '' '') requestLine ! 0 \<noteq> ''GET'' \<longrightarrow>
      handleClient lib execute p (requestLine # headerLines) =
        \<lparr>upstreamRequests = [], written = sendErrorResponse_android 405 ''Method Not Allowed''\<rparr>)
   \<and> (isUTF8 flib data \<and>
       2 \<le> length (split_char (CHR '' '') (hd (split_crlf data))) \<and>
       split_char (CHR '' '') (hd (split_crlf data)) ! 0 \<noteq> ''GET'' \<longrightarrow>
      processRequest_ios flib dataTask q data =
        \<lparr>upstreamRequests = [], written = sendErrorResponse_ios 405 ''Method not allowed''\<rparr>)
   \<and> prefix ''HTTP/1.1 405 Method Not Allowed'' (sendErrorResponse_android 405 message)
   \<and> prefix ''HTTP/1.1 405 Method Not Allowed'' (sendErrorResponse_ios 405 message)"
proof (intro conjI impI)
  assume "2 \<le> length (split_char (CHR '' '') requestLine) \<and>
    split_char (CHR '' '') requestLine ! 0 \<noteq> ''GET''"
  then show "handleClient lib execute p (requestLine # headerLines) =
        \<lparr>upstreamRequests = [], written = sendErrorResponse_android 405 ''Method Not Allowed''\<rparr>"
    by (simp add: handleClient_def Let_def)
next
  assume a: "isUTF8 flib data \<and>
       2 \<le> length (split_char (CHR '' '') (hd (split_crlf data))) \<and>
       split_char (CHR '' '') (hd (split_crlf data)) ! 0 \<noteq> ''GET''"
  obtain requestLine rest where sp: "split_crlf data = requestLine # rest"
    using split_crlf_not_Nil [of data] by (cases "split_crlf data") auto
  with a show "processRequest_ios flib dataTask q data =
        \<lparr>upstreamRequests = [], written = sendErrorResponse_ios 405 ''Method not allowed''\<rparr>"
    by (simp add: processRequest_ios_def Let_def)
next
  show "prefix ''HTTP/1.1 405 Method Not Allowed'' (sendErrorResponse_android 405 message)"
    by (simp add: sendErrorResponse_android_def show_nat_405 httpStatusMessage_android_def)
next
  show "prefix ''HTTP/1.1 405 Method Not Allowed'' (sendErrorResponse_ios 405 message)"
    by (simp add: sendErrorResponse_ios_def sendResponse_ios_def show_nat_405 httpStatusMessage_ios_def)
qed

theorem non_GET_answered_405_without_fetch_witness:
  "handleClient
         \<lparr>URI_valid = (\<lambda>s. True), URI_getPath = (\<lambda>s. None), URI_resolve = (\<lambda>b r. None)\<rparr>
         (\<lambda>r. Inl ''timeout'')
         \<lparr>serverSocket = Some 1, executor = Some 1, a_port = 8080, isRunning = True,
          a_staticHeaders = [], a_dynamicHeadersProvider = None,
          closedServerSockets = {}, shutDownExecutors = {},
          clientSockets = [], closedClientSockets = {}\<rparr>
         [''POST /proxy?url=https%3A%2F%2Fcdn.example%2Fa.m3u8 HTTP/1.1'', '''']
     = \<lparr>upstreamRequests = [], written = sendErrorResponse_android 405 ''Method Not Allowed''\<rparr>
   \<and> processRequest_ios
         \<lparr>isUTF8 = (\<lambda>s. True), URL_relativeTo = (\<lambda>s u. None), pathExtension = (\<lambda>u. [])\<rparr>
         (\<lambda>r. NotHTTPResponse)
         \<lparr>i_listener = Some 1, i_port = 8080, i_activeConnections = [7],
          i_staticHeaders = [], i_dynamicHeadersProvider = None,
          cancelledListeners = {}, cancelledConnections = {}\<rparr>
         (''POST /https://cdn.example/a.m3u8 HTTP/1.1'' @ CRLF @ CRLF)
     = \<lparr>upstreamRequests = [], written = sendErrorResponse_ios 405 ''Method not allowed''\<rparr>"
proof -
  have crlf: "split_crlf (''POST /https://cdn.example/a.m3u8 HTTP/1.1'' @ CRLF @ CRLF)
                = [''POST /https://cdn.example/a.m3u8 HTTP/1.1'', '''', '''']"
    by (simp add: CRLF_def CR_def LF_def)
  show ?thesis
    using non_GET_answered_405_without_fetch
      [of "''POST /proxy?url=https%3A%2F%2Fcdn.example%2Fa.m3u8 HTTP/1.1''"
          "\<lparr>URI_valid = (\<lambda>s. True), URI_getPath = (\<lambda>s. None), URI_resolve = (\<lambda>b r. None)\<rparr>"
          "(\<lambda>r. Inl ''timeout'')"
          "\<lparr>serverSocket = Some 1, executor = Some 1, a_port = 8080, isRunning = True,
            a_staticHeaders = [], a_dynamicHeadersProvider = None,
            closedServerSockets = {}, shutDownExecutors = {},
            clientSockets = [], closedClientSockets = {}\<rparr>"
          "['''']"
          "\<lparr>isUTF8 = (\<lambda>s. True), URL_relativeTo = (\<lambda>s u. None), pathExtension = (\<lambda>u. [])\<rparr>"
          "''POST /https://cdn.example/a.m3u8 HTTP/1.1'' @ CRLF @ CRLF"
          "(\<lambda>r. NotHTTPResponse)"
          "\<lparr>i_listener = Some 1, i_port = 8080, i_activeConnections = [7],
            i_staticHeaders = [], i_dynamicHeadersProvider = None,
            cancelledListeners = {}, cancelledConnections = {}\<rparr>"]
    unfolding crlf by simp
qed

section \<open>Lifecycle\<close>

text \<open>
  Claim C8.  After \<^verbatim>\<open>stop()\<close>, from every state: the proxy is not running, its port is 0, no
  connection is tracked any more, every connection tracked before has been closed, and a
  second \<^verbatim>\<open>stop()\<close> changes nothing.  This holds for the Swift proxy, which cancels its listener
  and every connection of \<^verbatim>\<open>activeConnections\<close>.  The Kotlin \<^verbatim>\<open>stop()\<close>, documented as
  \<^emph>\<open>Stops the proxy server and closes all connections\<close>, resets the port, closes the server
  socket and shuts the executor down, but it closes no accepted client socket: the open
  client sockets and the closed ones are the same before and after it.  The last two
  conjuncts evaluate it on a running proxy that has accepted the socket 7: after \<^verbatim>\<open>stop()\<close> the
  socket 7 is still open, so the claim fails for the Kotlin proxy.
\<close>

theorem stop_android_leaves_client_sockets_open:
  "\<not> isRunning_ios (stop_ios p) \<and> port_ios (stop_ios p) = 0
   \<and> i_activeConnections (stop_ios p) = []
   \<and> set (i_activeConnections p) \<subseteq> cancelledConnections (stop_ios p)
   \<and> i_listener (stop_ios p) = None
   \<and> set_option (i_listener p) \<subseteq> cancelledListeners (stop_ios p)
   \<and> stop_ios (stop_ios p) = stop_ios p
   \<and> \<not> isRunning_android (stop_android q) \<and> \<not> isRunning (stop_android q)
   \<and> port_android (stop_android q) = 0
   \<and> serverSocket (stop_android q) = None \<and> executor (stop_android q) = None
   \<and> set_option (serverSocket q) \<subseteq> closedServerSockets (stop_android q)
   \<and> set_option (executor q) \<subseteq> shutDownExecutors (stop_android q)
   \<and> stop_android (stop_android q) = stop_android q
   \<and> clientSockets (stop_android q) = clientSockets q
   \<and> closedClientSockets (stop_android q) = closedClientSockets q
   \<and> clientSockets
        (stop_android
          (acceptConnections
            \<lparr>serverSocket = Some 1, executor = Some 1, a_port = 8080, isRunning = True,
             a_staticHeaders = [], a_dynamicHeadersProvider = None,
             closedServerSockets = {}, shutDownExecutors = {},
             clientSockets = [], closedClientSockets = {}\<rparr> 7)) = [7]
   \<and> closedClientSockets
        (stop_android
          (acceptConnections
            \<lparr>serverSocket = Some 1, executor = Some 1, a_port = 8080, isRunning = True,
             a_staticHeaders = [], a_dynamicHeadersProvider = None,
             closedServerSockets = {}, shutDownExecutors = {},
             clientSockets = [], closedClientSockets = {}\<rparr> 7)) = {}"
  by (auto simp: stop_ios_def stop_android_def isRunning_ios_def isRunning_android_def
      port_ios_def port_android_def acceptConnections_def)

section \<open>Upstream request headers\<close>

lemma fold_setValue_map_of:
  "distinct (map fst xs) \<Longrightarrow>
     map_of (fold (\<lambda>(key, value) hdrs. setValue value key hdrs) xs acc) = map_of acc ++ map_of xs"
proof (induction xs arbitrary: acc)
  case Nil
  show ?case by simp
next
  case (Cons x xs)
  obtain k v where x: "x = (k, v)" by (cases x)
  from Cons.prems x have k: "k \<notin> fst ` set xs" and d: "distinct (map fst xs)" by auto
  from k have nk: "map_of xs k = None" by (simp add: map_of_eq_None_iff)
  have "map_of (fold (\<lambda>(key, value) hdrs. setValue value key hdrs) (x # xs) acc)
          = map_of (AList.update k v acc) ++ map_of xs"
    using Cons.IH [OF d] by (simp add: x setValue_def)
  also have "\<dots> = (map_of acc)(k \<mapsto> v) ++ map_of xs"
    by (simp add: update_conv')
  also have "\<dots> = map_of acc ++ map_of (x # xs)"
    using nk by (auto simp: x map_add_def fun_eq_iff split: option.splits)
  finally show ?case .
qed

lemma buildRequest_ios_merges:
  assumes "distinct (map fst originalHeaders)" "distinct (map fst (i_staticHeaders p))"
    and "i_dynamicHeadersProvider p = Some dynamicHeaders" "distinct (map fst dynamicHeaders)"
  shows "map_of (req_headers (buildRequest_ios p originalUrl originalHeaders))
           = map_of originalHeaders ++ map_of (i_staticHeaders p) ++ map_of dynamicHeaders"
  using assms by (simp add: buildRequest_ios_def fold_setValue_map_of)

lemma fold_addHeader:
  "fold (\<lambda>(key, value) hdrs. addHeader key value hdrs) xs acc = acc @ xs"
  by (induction xs arbitrary: acc) (auto simp: addHeader_def)

lemma buildRequest_android_appends:
  "req_headers (buildRequest_android p originalUrl) =
     a_staticHeaders p @ (case a_dynamicHeadersProvider p of None \<Rightarrow> [] | Some d \<Rightarrow> d)"
  by (simp add: buildRequest_android_def fold_addHeader)

text \<open>
  Claim C1.  The headers of the upstream request are the merge of the forwarded, the static
  and the dynamic headers, a later value replacing an earlier one of the same name; with
  static headers \<^verbatim>\<open>{"A":"1"}\<close> and a provider returning \<^verbatim>\<open>{"A":"2","B":"3"}\<close> the request carries
  \<^verbatim>\<open>A: 2\<close> and \<^verbatim>\<open>B: 3\<close>.  The theorem evaluates both proxies at that input: the Swift proxy
  (\<^verbatim>\<open>setValue\<close>) sends \<^verbatim>\<open>A: 2, B: 3\<close>; the Kotlin proxy (\<^verbatim>\<open>addHeader\<close>) sends \<^verbatim>\<open>A: 1, A: 2, B: 3\<close>,
  two values for \<^verbatim>\<open>A\<close>, so the claim fails there.
\<close>

theorem upstream_headers_static_A1_dynamic_A2_B3:
  "req_headers
     (buildRequest_ios
        \<lparr>i_listener = Some 1, i_port = 8080, i_activeConnections = [],
         i_staticHeaders = [(''A'', ''1'')],
         i_dynamicHeadersProvider = Some [(''A'', ''2''), (''B'', ''3'')],
         cancelledListeners = {}, cancelledConnections = {}\<rparr>
        (URL_of_string ''https://cdn.example/media/index.m3u8'') [])
     = [(''A'', ''2''), (''B'', ''3'')]
   \<and> req_headers
     (buildRequest_android
        \<lparr>serverSocket = Some 1, executor = Some 1, a_port = 8080, isRunning = True,
         a_staticHeaders = [(''A'', ''1'')],
         a_dynamicHeadersProvider = Some [(''A'', ''2''), (''B'', ''3'')],
         closedServerSockets = {}, shutDownExecutors = {},
         clientSockets = [], closedClientSockets = {}\<rparr>
        ''https://cdn.example/media/index.m3u8'')
     = [(''A'', ''1''), (''A'', ''2''), (''B'', ''3'')]"
  by (simp add: buildRequest_ios_def buildRequest_android_def setValue_def addHeader_def)

section \<open>Response headers\<close>

lemma lowercase_cors: "lowercase ''Access-Control-Allow-Origin'' = ''access-control-allow-origin''"
  by (simp add: lowercase_def toLowerAscii_def)

lemma lowercase_Content_Length: "lowercase ''Content-Length'' = ''content-length''"
  by (simp add: lowercase_def toLowerAscii_def)

lemma lowercase_Content_Type: "lowercase ''Content-Type'' = ''content-type''"
  by (simp add: lowercase_def toLowerAscii_def)

lemma filter_content_length_kept:
  "filter (\<lambda>(k, v). lowercase k = ''content-length'')
      (filter (\<lambda>(key, value). \<not> skippedHeader key) headers) = []"
  by (auto simp: filter_empty_conv skippedHeader_def)

lemma filter_encoding_kept:
  "filter (\<lambda>(k, v). lowercase k = ''content-encoding'' \<or> lowercase k = ''transfer-encoding'')
      (filter (\<lambda>(key, value). \<not> skippedHeader key) headers) = []"
  by (auto simp: filter_empty_conv skippedHeader_def)

lemma sendResponse_android_fields_ok:
  "(''Access-Control-Allow-Origin'', ''*'') \<in> set (sendResponse_android_fields headers body)"
  "filter (\<lambda>(k, v). lowercase k = ''content-length'') (sendResponse_android_fields headers body)
     = [(''Content-Length'', show_nat (length body))]"
  "filter (\<lambda>(k, v). lowercase k = ''content-encoding'' \<or> lowercase k = ''transfer-encoding'')
     (sendResponse_android_fields headers body) = []"
  by (simp_all add: sendResponse_android_fields_def lowercase_cors lowercase_Content_Length
      filter_content_length_kept filter_encoding_kept del: filter_filter)

lemma sendResponse_query_fields_ok:
  "(''Access-Control-Allow-Origin'', ''*'') \<in> set (sendResponse_query_fields headers body m)"
  "filter (\<lambda>(k, v). lowercase k = ''content-length'') (sendResponse_query_fields headers body m)
     = [(''Content-Length'', show_nat (length body))]"
  "filter (\<lambda>(k, v). lowercase k = ''content-encoding'' \<or> lowercase k = ''transfer-encoding'')
     (sendResponse_query_fields headers body m) = []"
  by (simp_all add: sendResponse_query_fields_def lowercase_cors lowercase_Content_Length
      filter_content_length_kept filter_encoding_kept del: filter_filter)

lemma sendResponse_ios_fields_ok:
  "(''Access-Control-Allow-Origin'', ''*'') \<in> set (sendResponse_ios_fields contentType body)"
  "filter (\<lambda>(k, v). lowercase k = ''content-length'') (sendResponse_ios_fields contentType body)
     = [(''Content-Length'', show_nat (length body))]"
  "filter (\<lambda>(k, v). lowercase k = ''content-encoding'' \<or> lowercase k = ''transfer-encoding'')
     (sendResponse_ios_fields contentType body) = []"
  by (cases contentType;
      simp add: sendResponse_ios_fields_def lowercase_cors lowercase_Content_Length
        lowercase_Content_Type)+

lemma sendErrorResponse_android_fields_ok:
  "(''Access-Control-Allow-Origin'', ''*'') \<in> set (sendErrorResponse_android_fields message)"
  "filter (\<lambda>(k, v). lowercase k = ''content-length'') (sendErrorResponse_android_fields message)
     = [(''Content-Length'', show_nat (length message))]"
  "filter (\<lambda>(k, v). lowercase k = ''content-encoding'' \<or> lowercase k = ''transfer-encoding'')
     (sendErrorResponse_android_fields message) = []"
  by (simp_all add: sendErrorResponse_android_fields_def lowercase_cors lowercase_Content_Length
      lowercase_Content_Type)

lemma show_nat_8080: "show_nat 8080 = ''8080''"
  by (simp add: show_nat.simps)

lemma lowercase_Location: "lowercase ''Location'' = ''location''"
  by (simp add: lowercase_def toLowerAscii_def)

lemma seg_legal: "isLegalURLString ''https://cdn.example/v2/seg.ts''"
  by (simp add: isLegalURLString_def urlLegalChar_def)

lemma show_nat_302: "show_nat 302 = ''302''"
  by (simp add: show_nat.simps)

text \<open>
  Claim C5.  Every response written to a client carries \<^verbatim>\<open>Access-Control-Allow-Origin: *\<close>,
  no \<^verbatim>\<open>Content-Encoding\<close>, \<^verbatim>\<open>Transfer-Encoding\<close> or upstream \<^verbatim>\<open>Content-Length\<close>, and exactly
  one \<^verbatim>\<open>Content-Length\<close> with the length of the body.  The lemmas above show this for
  \<^verbatim>\<open>sendResponse\<close> on all three proxies and for the Kotlin error writer.  The theorem evaluates
  the iOS proxy at an upstream \<^verbatim>\<open>302\<close> with a \<^verbatim>\<open>Location\<close>: the redirect response written by
  \<^verbatim>\<open>sendRedirectResponse\<close> has the fields \<^verbatim>\<open>Location\<close> and \<^verbatim>\<open>Content-Length\<close> only, without the
  \<^verbatim>\<open>Access-Control-Allow-Origin\<close> field, so the claim fails for redirect responses.
\<close>

theorem redirect_response_lacks_cors_header:
  "written
     (fetchAndProxy_ios
        \<lparr>isUTF8 = (\<lambda>s. True), URL_relativeTo = (\<lambda>s base. URL_string s),
         pathExtension = (\<lambda>u. [])\<rparr>
        (\<lambda>request. HTTPResponse
           \<lparr>resp_code = 302,
            resp_headers = [(''Location'', ''https://cdn.example/v2/seg.ts'')],
            resp_body = []\<rparr>)
        \<lparr>i_listener = Some 1, i_port = 8080, i_activeConnections = [7],
         i_staticHeaders = [], i_dynamicHeadersProvider = None,
         cancelledListeners = {}, cancelledConnections = {}\<rparr>
        (URL_of_string ''https://cdn.example/a/b.m3u8'') [])
     = ''HTTP/1.1 302 Found'' @ CRLF @
       ''Location: http://localhost:8080/https://cdn.example/v2/seg.ts'' @ CRLF @
       ''Content-Length: 0'' @ CRLF @ CRLF
   \<and> sendRedirectResponse_ios_fields location
     = [(''Location'', location), (''Content-Length'', ''0'')]"
proof -
  have loc: "valueForHTTPHeaderField [(''Location'', ''https://cdn.example/v2/seg.ts'')] ''Location''
               = Some ''https://cdn.example/v2/seg.ts''"
    by (simp add: valueForHTTPHeaderField_def lowercase_Location)
  have abs: "absoluteString (URL_of_string ''https://cdn.example/v2/seg.ts'')
               = ''https://cdn.example/v2/seg.ts''"
    using seg_legal by (simp add: URL_of_string_inverse)
  have prox: "createProxyUrl_ios 8080 (URL_of_string ''https://cdn.example/v2/seg.ts'')
               = Some (URL_of_string (proxyBaseUrl 8080 @ ''https://cdn.example/v2/seg.ts''))"
    using createProxyUrl_ios_running [of 8080 "URL_of_string ''https://cdn.example/v2/seg.ts''"]
    by (simp add: abs)
  have pabs: "absoluteString (URL_of_string (proxyBaseUrl 8080 @ ''https://cdn.example/v2/seg.ts''))
               = proxyBaseUrl 8080 @ ''https://cdn.example/v2/seg.ts''"
    using isLegal_proxied [OF seg_legal, of 8080] by (simp add: URL_of_string_inverse)
  have base: "proxyBaseUrl 8080 = ''http://localhost:8080/''"
    by (simp add: proxyBaseUrl_def show_nat_8080)
  have red: "proxiedRedirectUrl
        \<lparr>isUTF8 = (\<lambda>s. True), URL_relativeTo = (\<lambda>s base. URL_string s),
         pathExtension = (\<lambda>u. [])\<rparr> 8080 (URL_of_string ''https://cdn.example/a/b.m3u8'')
        \<lparr>resp_code = 302,
            resp_headers = [(''Location'', ''https://cdn.example/v2/seg.ts'')],
            resp_body = []\<rparr>
      = Some (URL_of_string (proxyBaseUrl 8080 @ ''https://cdn.example/v2/seg.ts''))"
    unfolding proxiedRedirectUrl_def
    by (simp add: loc URL_string_def seg_legal prox del: valueForHTTPHeaderField_def)
  show ?thesis
    unfolding fetchAndProxy_ios_def Let_def
    by (simp add: red pabs isRedirectStatus_def sendRedirectResponse_ios_def
        sendRedirectResponse_ios_fields_def headerLine_def show_nat_302 httpStatusMessage_ios_def)
      (simp add: base)
qed

section \<open>Manifest responses\<close>

lemma show_nat_200: "show_nat 200 = ''200''"
  by (simp add: show_nat.simps)

lemma show_nat_8: "show_nat (Suc (Suc (Suc (Suc (Suc (Suc (Suc (Suc 0)))))))) = ''8''"
  by (simp add: show_nat.simps)

lemma not_skipped_Content_Type: "\<not> skippedHeader ''Content-Type''"
  by (simp add: skippedHeader_def lowercase_Content_Type)

text \<open>
  Claim C6.  A response classified as a manifest is sent with
  \<^verbatim>\<open>Content-Type: application/vnd.apple.mpegurl\<close>, whatever the upstream reported.  The Kotlin
  proxy does so (\<open>responseHeadersMap_android_manifest\<close> below).  The theorem evaluates the
  query-embedding Swift proxy at an upstream playlist with \<^verbatim>\<open>Content-Type: application/x-mpegURL\<close>:
  the body is rewritten, but \<^verbatim>\<open>sendResponse\<close> forwards the upstream \<^verbatim>\<open>Content-Type\<close> unchanged;
  its parameter \<^verbatim>\<open>isManifest\<close> has no influence on the fields it writes.
\<close>

theorem query_proxy_keeps_upstream_content_type:
  "written
     (fetchAndProxy_query
        \<lparr>isUTF8 = (\<lambda>s. True), URL_relativeTo = (\<lambda>s base. None),
         pathExtension = (\<lambda>u. ''m3u8'')\<rparr>
        (\<lambda>request. HTTPResponse
           \<lparr>resp_code = 200,
            resp_headers = [(''Content-Type'', ''application/x-mpegURL'')],
            resp_body = ''#EXTM3U''\<rparr>)
        \<lparr>i_listener = Some 1, i_port = 8080, i_activeConnections = [7],
         i_staticHeaders = [], i_dynamicHeadersProvider = None,
         cancelledListeners = {}, cancelledConnections = {}\<rparr>
        (URL_of_string ''https://cdn.example/media/index.m3u8''))
     = ''HTTP/1.1 200 OK'' @ CRLF @
       ''Access-Control-Allow-Origin: *'' @ CRLF @
       ''Content-Type: application/x-mpegURL'' @ CRLF @
       ''Content-Length: 8'' @ CRLF @ CRLF @
       ''#EXTM3U'' @ [LF]
   \<and> sendResponse_query_fields headers data True = sendResponse_query_fields headers data False"
proof -
  have ct: "valueForHTTPHeaderField [(''Content-Type'', ''application/x-mpegURL'')] ''Content-Type''
              = Some ''application/x-mpegURL''"
    by (simp add: valueForHTTPHeaderField_def lowercase_Content_Type)
  have man: "isManifest_query
        \<lparr>isUTF8 = (\<lambda>s. True), URL_relativeTo = (\<lambda>s base. None),
         pathExtension = (\<lambda>u. ''m3u8'')\<rparr> ''application/x-mpegURL''
        (URL_of_string ''https://cdn.example/media/index.m3u8'')"
    by (simp add: isManifest_query_def)
  have line: "rewriteLine_query
        \<lparr>isUTF8 = (\<lambda>s. True), URL_relativeTo = (\<lambda>s base. None),
         pathExtension = (\<lambda>u. ''m3u8'')\<rparr> 8080
        (URL_of_string ''https://cdn.example/media/index.m3u8'') ''#EXTM3U'' = ''#EXTM3U''"
    by (simp add: rewriteLine_query_def URI_attr_def DQUOTE_def)
  have body: "rewriteHLSManifest_query
        \<lparr>isUTF8 = (\<lambda>s. True), URL_relativeTo = (\<lambda>s base. None),
         pathExtension = (\<lambda>u. ''m3u8'')\<rparr> 8080 ''#EXTM3U''
        (URL_of_string ''https://cdn.example/media/index.m3u8'') = ''#EXTM3U'' @ [LF]"
    by (simp add: rewriteHLSManifest_query_def LF_def line)
  have 1: "written
     (fetchAndProxy_query
        \<lparr>isUTF8 = (\<lambda>s. True), URL_relativeTo = (\<lambda>s base. None),
         pathExtension = (\<lambda>u. ''m3u8'')\<rparr>
        (\<lambda>request. HTTPResponse
           \<lparr>resp_code = 200,
            resp_headers = [(''Content-Type'', ''application/x-mpegURL'')],
            resp_body = ''#EXTM3U''\<rparr>)
        \<lparr>i_listener = Some 1, i_port = 8080, i_activeConnections = [7],
         i_staticHeaders = [], i_dynamicHeadersProvider = None,
         cancelledListeners = {}, cancelledConnections = {}\<rparr>
        (URL_of_string ''https://cdn.example/media/index.m3u8''))
     = ''HTTP/1.1 200 OK'' @ CRLF @
       ''Access-Control-Allow-Origin: *'' @ CRLF @
       ''Content-Type: application/x-mpegURL'' @ CRLF @
       ''Content-Length: 8'' @ CRLF @ CRLF @
       ''#EXTM3U'' @ [LF]"
    unfolding fetchAndProxy_query_def Let_def
    by (simp add: ct man body sendResponse_query_def sendResponse_query_fields_def
        not_skipped_Content_Type headerLine_def show_nat_200 show_nat_8
        httpStatusMessage_query_def)
  have 2: "sendResponse_query_fields headers data True = sendResponse_query_fields headers data False"
    by (simp add: sendResponse_query_fields_def)
  from 1 2 show ?thesis by (rule conjI)
qed

lemma AList_update_in_set: "(k, v) \<in> set (AList.update k v al)"
  by (induction al) auto

lemma responseHeadersMap_android_manifest:
  assumes "isManifest_android lib
             (case okhttp_header (resp_headers resp) ''Content-Type'' of Some t \<Rightarrow> t | None \<Rightarrow> [])
             originalUrl"
  shows "map_of (responseHeadersMap_android lib originalUrl resp) ''Content-Type''
           = Some ''application/vnd.apple.mpegurl''"
    and "(''Content-Type'', ''application/vnd.apple.mpegurl'')
           \<in> set (sendResponse_android_fields (responseHeadersMap_android lib originalUrl resp) body)"
proof -
  show "map_of (responseHeadersMap_android lib originalUrl resp) ''Content-Type''
           = Some ''application/vnd.apple.mpegurl''"
    using assms by (simp add: responseHeadersMap_android_def Let_def update_conv')
  have "(''Content-Type'', ''application/vnd.apple.mpegurl'')
          \<in> set (responseHeadersMap_android lib originalUrl resp)"
    using assms AList_update_in_set
    by (simp add: responseHeadersMap_android_def Let_def)
  then show "(''Content-Type'', ''application/vnd.apple.mpegurl'')
           \<in> set (sendResponse_android_fields (responseHeadersMap_android lib originalUrl resp) body)"
    using not_skipped_Content_Type by (auto simp: sendResponse_android_fields_def)
qed

section \<open>Manifest rewriting\<close>

lemma split_char_not_Nil: "split_char c s \<noteq> []"
  by (induction s) (auto split: list.splits)

lemma concat_split_char: "concat (map (\<lambda>l. l @ [c]) (split_char c s)) = s @ [c]"
  by (induction s) (auto split: list.splits)

lemma fold_append_lines:
  "fold (\<lambda>line result. result @ f line @ [LF]) ls acc = acc @ concat (map (\<lambda>l. f l @ [LF]) ls)"
  by (induction ls arbitrary: acc) simp_all

lemma rewriteHLSManifest_android_lines:
  "URI_valid lib baseUrl \<Longrightarrow>
     rewriteHLSManifest_android lib port content baseUrl =
       concat (map (\<lambda>line. rewriteLine_android lib port baseUrl line @ [LF]) (split_char LF content))"
  by (simp add: rewriteHLSManifest_android_def fold_append_lines)

lemma rewriteHLSManifest_query_lines:
  "isUTF8 lib data \<Longrightarrow>
     rewriteHLSManifest_query lib port data baseUrl =
       concat (map (\<lambda>line. rewriteLine_query lib port baseUrl line @ [LF]) (split_char LF data))"
  by (simp add: rewriteHLSManifest_query_def fold_append_lines)

lemma unrewritten_lines:
  assumes "\<forall>line \<in> set (split_char LF content). f line = line"
  shows "concat (map (\<lambda>line. f line @ [LF]) (split_char LF content)) = content @ [LF]"
proof -
  have "map (\<lambda>line. f line @ [LF]) (split_char LF content)
          = map (\<lambda>line. line @ [LF]) (split_char LF content)"
    using assms by (intro map_cong) simp_all
  then show ?thesis by (simp only: concat_split_char)
qed

subsection \<open>The pattern \<^verbatim>\<open>URI="([^"]*)"\<close>\<close>

lemma length_URI_attr: "length URI_attr = 5"
  by (simp add: URI_attr_def)

lemma replaceURIMatches_no_match:
  "\<not> str_contains s URI_attr \<Longrightarrow> replaceURIMatches transform s = s"
proof (induction s)
  case Nil
  show ?case by (simp add: replaceURIMatches.simps)
next
  case (Cons c cs)
  then have "\<not> prefix URI_attr (c # cs)" "\<not> str_contains cs URI_attr" by simp_all
  with Cons.IH show ?case by (subst replaceURIMatches.simps) simp
qed

lemma takeWhile_until: "q \<notin> set v \<Longrightarrow> takeWhile (\<lambda>x. x \<noteq> q) (v @ q # post) = v"
  by (induction v) auto

lemma dropWhile_until: "q \<notin> set v \<Longrightarrow> dropWhile (\<lambda>x. x \<noteq> q) (v @ q # post) = q # post"
  by (induction v) auto

lemma replaceURIMatches_match:
  assumes "DQUOTE \<notin> set v"
  shows "replaceURIMatches transform (URI_attr @ v @ DQUOTE # post)
           = transform v @ replaceURIMatches transform post"
proof -
  note tw = takeWhile_until [OF assms, of post]
  note dw = dropWhile_until [OF assms, of post]
  obtain c cs where s: "URI_attr @ v @ DQUOTE # post = c # cs"
    by (cases "URI_attr @ v @ DQUOTE # post") (simp_all add: URI_attr_def)
  have pre: "prefix URI_attr (c # cs)"
    unfolding s [symmetric] by simp
  have dr: "drop (length URI_attr) (c # cs) = v @ DQUOTE # post"
    unfolding s [symmetric] by simp
  have mem: "DQUOTE \<in> set (v @ DQUOTE # post)"
    by simp
  show ?thesis
    unfolding s
    by (subst replaceURIMatches.simps) (simp only: pre dr tw dw mem, simp)
qed

lemma prefix_iff_take: "prefix xs ys \<longleftrightarrow> take (length xs) ys = xs"
proof
  assume "prefix xs ys"
  then obtain zs where "ys = xs @ zs" by (auto elim: prefixE)
  then show "take (length xs) ys = xs" by simp
next
  assume "take (length xs) ys = xs"
  then show "prefix xs ys" using take_is_prefix [of "length xs" ys] by simp
qed

lemma prefix_URI_attr_straddle:
  assumes "x \<noteq> []"
  shows "prefix URI_attr (x @ URI_attr @ rest) \<longleftrightarrow> prefix URI_attr (x @ ''URI='')"
proof -
  have len: "5 - length (x @ ''URI='') = 0"
    using assms by (cases x) simp_all
  have "take 5 ((x @ ''URI='') @ DQUOTE # rest) = take 5 (x @ ''URI='')"
    by (subst take_append) (simp only: len take_0 append_Nil2)
  moreover have "x @ URI_attr @ rest = (x @ ''URI='') @ DQUOTE # rest"
    by (simp add: URI_attr_def)
  ultimately have "take (length URI_attr) (x @ URI_attr @ rest) = take (length URI_attr) (x @ ''URI='')"
    by (simp only: length_URI_attr)
  then show ?thesis
    by (simp only: prefix_iff_take)
qed

lemma replaceURIMatches_skip:
  assumes "\<not> str_contains (pre @ ''URI='') URI_attr"
  shows "replaceURIMatches transform (pre @ URI_attr @ rest)
           = pre @ replaceURIMatches transform (URI_attr @ rest)"
  using assms
proof (induction pre)
  case Nil
  show ?case by simp
next
  case (Cons c pre)
  from Cons.prems have np: "\<not> prefix URI_attr ((c # pre) @ ''URI='')"
    and nc: "\<not> str_contains (pre @ ''URI='') URI_attr"
    by simp_all
  from np have "\<not> prefix URI_attr ((c # pre) @ URI_attr @ rest)"
    using prefix_URI_attr_straddle [of "c # pre" rest] by simp
  then have "replaceURIMatches transform ((c # pre) @ URI_attr @ rest)
               = c # replaceURIMatches transform (pre @ URI_attr @ rest)"
    by (simp add: replaceURIMatches.simps)
  with Cons.IH [OF nc] show ?case by simp
qed

lemma replaceURIMatches_attribute:
  assumes "\<not> str_contains (pre @ ''URI='') URI_attr" and "DQUOTE \<notin> set v"
  shows "replaceURIMatches transform (pre @ URI_attr @ v @ DQUOTE # post)
           = pre @ transform v @ replaceURIMatches transform post"
  using replaceURIMatches_skip [OF assms(1), of transform "v @ DQUOTE # post"]
    replaceURIMatches_match [OF assms(2), of transform post]
  by simp

lemma str_contains_prefix: "prefix m s \<Longrightarrow> str_contains s m"
  by (cases s) auto

lemma str_contains_append: "str_contains (pre @ m @ post) m"
  by (induction pre) (simp_all add: str_contains_prefix)

subsection \<open>One line, Kotlin\<close>

lemma resolveUrl_android_absolute:
  "prefix ''http://'' u \<or> prefix ''https://'' u \<Longrightarrow> resolveUrl_android lib u baseUri = Some u"
  by (simp add: resolveUrl_android_def)

lemma resolveUrl_android_relative:
  "\<not> prefix ''http://'' u \<Longrightarrow> \<not> prefix ''https://'' u \<Longrightarrow>
     resolveUrl_android lib u baseUri = URI_resolve lib baseUri u"
  by (simp add: resolveUrl_android_def)

lemma rewriteLine_android_other:
  "\<not> str_contains line URI_attr \<Longrightarrow> prefix ''#'' line \<or> trim line = [] \<Longrightarrow>
     rewriteLine_android lib port baseUri line = line"
  by (auto simp: rewriteLine_android_def)

lemma rewriteLine_android_reference:
  "\<not> str_contains line URI_attr \<Longrightarrow> \<not> prefix ''#'' line \<Longrightarrow> trim line \<noteq> [] \<Longrightarrow>
   resolveUrl_android lib (trim line) baseUri = Some target \<Longrightarrow> port \<noteq> 0 \<Longrightarrow>
     rewriteLine_android lib port baseUri line = proxyUrlString port (URLEncoder_encode target)"
  by (simp add: rewriteLine_android_def createProxyUrl_android_def)

lemma rewriteLine_android_unresolved:
  "\<not> str_contains line URI_attr \<Longrightarrow> resolveUrl_android lib (trim line) baseUri = None \<Longrightarrow>
     rewriteLine_android lib port baseUri line = line"
  by (simp add: rewriteLine_android_def)

lemma rewriteLine_android_stopped:
  "\<not> str_contains line URI_attr \<Longrightarrow> rewriteLine_android lib 0 baseUri line = line"
  by (simp add: rewriteLine_android_def createProxyUrl_android_def split: option.splits)

lemma rewriteLine_android_attribute:
  assumes "\<not> str_contains (pre @ ''URI='') URI_attr" and "DQUOTE \<notin> set v"
  shows "rewriteLine_android lib port baseUri (pre @ URI_attr @ v @ DQUOTE # post) =
           pre @ URI_attr @
           (case resolveUrl_android lib v baseUri of
              Some target \<Rightarrow>
                (if port = 0 then v else proxyUrlString port (URLEncoder_encode target))
            | None \<Rightarrow> v) @
           [DQUOTE] @ rewriteURIAttributes_android lib port post baseUri"
proof -
  have c: "str_contains (pre @ URI_attr @ v @ DQUOTE # post) URI_attr"
    by (rule str_contains_append)
  show ?thesis
    unfolding rewriteLine_android_def rewriteURIAttributes_android_def
    by (simp only: c if_True replaceURIMatches_attribute [OF assms])
      (simp add: createProxyUrl_android_def split: option.splits)
qed

lemma rewriteURIAttributes_android_none:
  "\<not> str_contains s URI_attr \<Longrightarrow> rewriteURIAttributes_android lib port s baseUri = s"
  by (simp add: rewriteURIAttributes_android_def replaceURIMatches_no_match)

subsection \<open>One line, Swift\<close>

lemma percent_not_queryAllowed: "\<not> urlQueryAllowed (CHR ''%'')"
  by code_simp

lemma removingPercentEncoding_percentEscape:
  "removingPercentEncoding (percentEscape c @ s) = map_option ((#) c) (removingPercentEncoding s)"
  by (simp add: percentEscape_def hexValue_hexDigitUpper byte_nibbles)

lemma removingPercentEncoding_encoded:
  "removingPercentEncoding (percentEncode urlQueryAllowed s) = Some s"
proof (induction s)
  case Nil
  show ?case by (simp add: percentEncode_def)
next
  case (Cons c s)
  show ?case
  proof (cases "urlQueryAllowed c")
    case True
    then have "c \<noteq> CHR ''%''" using percent_not_queryAllowed by auto
    with True Cons show ?thesis by (simp add: percentEncode_Cons)
  next
    case False
    with Cons show ?thesis
      by (simp add: percentEncode_Cons removingPercentEncoding_percentEscape
          del: removingPercentEncoding.simps)
  qed
qed

lemma absoluteString_query_proxy:
  "absoluteString (URL_of_string (proxyUrlString port (percentEncode urlQueryAllowed s)))
     = proxyUrlString port (percentEncode urlQueryAllowed s)"
  using isLegal_query_proxy [of port s] by (simp add: URL_of_string_inverse)

lemma rewriteLine_query_other:
  "\<not> str_contains line URI_attr \<Longrightarrow> prefix ''#'' line \<or> trimmingWhitespaces line = [] \<Longrightarrow>
     rewriteLine_query lib port baseUrl line = line"
  by (auto simp: rewriteLine_query_def)

lemma rewriteLine_query_reference:
  "\<not> str_contains line URI_attr \<Longrightarrow> \<not> prefix ''#'' line \<Longrightarrow> trimmingWhitespaces line \<noteq> [] \<Longrightarrow>
   resolveUrl_query lib (trimmingWhitespaces line) baseUrl = Some target \<Longrightarrow> port > 0 \<Longrightarrow>
     rewriteLine_query lib port baseUrl line =
       proxyUrlString port (percentEncode urlQueryAllowed (absoluteString target))"
  by (simp add: rewriteLine_query_def createProxyUrl_query_running absoluteString_query_proxy)

lemma rewriteLine_query_unresolved:
  "\<not> str_contains line URI_attr \<Longrightarrow>
   resolveUrl_query lib (trimmingWhitespaces line) baseUrl = None \<Longrightarrow>
     rewriteLine_query lib port baseUrl line = line"
  by (simp add: rewriteLine_query_def)

lemma rewriteLine_query_stopped:
  "\<not> str_contains line URI_attr \<Longrightarrow> rewriteLine_query lib 0 baseUrl line = line"
  by (simp add: rewriteLine_query_def createProxyUrl_query_def split: option.splits)

lemma rewriteLine_query_attribute:
  assumes "\<not> str_contains (pre @ ''URI='') URI_attr" and "DQUOTE \<notin> set v"
  shows "rewriteLine_query lib port baseUrl (pre @ URI_attr @ v @ DQUOTE # post) =
           pre @ URI_attr @
           (case resolveUrl_query lib v baseUrl of
              Some target \<Rightarrow>
                (if port = 0 then v
                 else proxyUrlString port (percentEncode urlQueryAllowed (absoluteString target)))
            | None \<Rightarrow> v) @
           [DQUOTE] @ rewriteURIAttributes_query lib port post baseUrl"
proof -
  have c: "str_contains (pre @ URI_attr @ v @ DQUOTE # post) URI_attr"
    by (rule str_contains_append)
  have p: "createProxyUrl_query port t =
             (if port = 0 then None
              else Some (URL_of_string
                     (proxyUrlString port (percentEncode urlQueryAllowed (absoluteString t)))))" for t
    using createProxyUrl_query_running [of port t]
    by (cases "port = 0") (simp_all add: createProxyUrl_query_def)
  show ?thesis
    unfolding rewriteLine_query_def rewriteURIAttributes_query_def
    by (simp only: c if_True replaceURIMatches_attribute [OF assms])
      (simp add: p absoluteString_query_proxy split: option.splits)
qed

lemma rewriteURIAttributes_query_none:
  "\<not> str_contains s URI_attr \<Longrightarrow> rewriteURIAttributes_query lib port s baseUrl = s"
  by (simp add: rewriteURIAttributes_query_def replaceURIMatches_no_match)

lemma resolveUrl_query_absolute:
  "prefix ''http://'' u \<or> prefix ''https://'' u \<Longrightarrow> resolveUrl_query lib u baseUrl = URL_string u"
  by (simp add: resolveUrl_query_def)

subsection \<open>The rewritten playlist\<close>

text \<open>
  Claim C3, as the code has it.  The rewriter (Kotlin, and the query-embedding Swift proxy)
  splits the body at line feeds and emits the text of every line followed by one line feed:
  the output is the concatenation, over the lines, of the rewritten line and a line feed, so a
  body none of whose lines is rewritten comes out as the input followed by one more line
  feed.  A line without \<^verbatim>\<open>URI="\<close> that does not start with \<^verbatim>\<open>#\<close> and is not blank after trimming
  becomes the proxy URL of the trimmed line resolved against the fetch URL, and that proxy
  URL decodes to the resolved target; \<^verbatim>\<open>http://\<close> and \<^verbatim>\<open>https://\<close> references resolve to themselves;
  a line that does not resolve keeps its text; comment and blank lines are unchanged.  On a
  line with \<^verbatim>\<open>URI="..."\<close> only the quoted value is replaced (by the proxy URL of the resolved
  value, or kept when it does not resolve or the proxy is not running), the text before and
  after it is preserved, the text after it being searched for further attributes.  When the
  fetch URL does not parse (Kotlin) or the body is not UTF-8 (Swift) the body is returned as
  it is.
\<close>

theorem manifest_rewritten_line_by_line:
  "(\<not> URI_valid lib baseUrl \<longrightarrow> rewriteHLSManifest_android lib port content baseUrl = content)
   \<and> (URI_valid lib baseUrl \<longrightarrow>
        rewriteHLSManifest_android lib port content baseUrl =
          concat (map (\<lambda>line. rewriteLine_android lib port baseUrl line @ [LF])
                      (split_char LF content)))
   \<and> (URI_valid lib baseUrl \<and>
       (\<forall>line \<in> set (split_char LF content). rewriteLine_android lib port baseUrl line = line) \<longrightarrow>
        rewriteHLSManifest_android lib port content baseUrl = content @ [LF])
   \<and> (\<not> str_contains line URI_attr \<and> \<not> prefix ''#'' line \<and> trim line \<noteq> [] \<and> port \<noteq> 0 \<and>
       resolveUrl_android lib (trim line) baseUrl = Some target \<longrightarrow>
        rewriteLine_android lib port baseUrl line = proxyUrlString port (URLEncoder_encode target) \<and>
        createProxyUrl_android port target = Some (proxyUrlString port (URLEncoder_encode target)) \<and>
        URLDecoder_decode (URLEncoder_encode target) = Some target)
   \<and> (prefix ''http://'' u \<or> prefix ''https://'' u \<longrightarrow> resolveUrl_android lib u baseUrl = Some u)
   \<and> (\<not> prefix ''http://'' u \<and> \<not> prefix ''https://'' u \<longrightarrow>
        resolveUrl_android lib u baseUrl = URI_resolve lib baseUrl u)
   \<and> (\<not> str_contains line URI_attr \<and> resolveUrl_android lib (trim line) baseUrl = None \<longrightarrow>
        rewriteLine_android lib port baseUrl line = line)
   \<and> (\<not> str_contains line URI_attr \<and> (prefix ''#'' line \<or> trim line = []) \<longrightarrow>
        rewriteLine_android lib port baseUrl line = line)
   \<and> (\<not> str_contains (pre @ ''URI='') URI_attr \<and> DQUOTE \<notin> set v \<longrightarrow>
        rewriteLine_android lib port baseUrl (pre @ URI_attr @ v @ DQUOTE # post) =
          pre @ URI_attr @
          (case resolveUrl_android lib v baseUrl of
             Some target \<Rightarrow>
               (if port = 0 then v else proxyUrlString port (URLEncoder_encode target))
           | None \<Rightarrow> v) @
          [DQUOTE] @ rewriteURIAttributes_android lib port post baseUrl)
   \<and> (\<not> str_contains post URI_attr \<longrightarrow> rewriteURIAttributes_android lib port post baseUrl = post)
   \<and> (\<not> isUTF8 flib content \<longrightarrow> rewriteHLSManifest_query flib port content qbase = content)
   \<and> (isUTF8 flib content \<longrightarrow>
        rewriteHLSManifest_query flib port content qbase =
          concat (map (\<lambda>line. rewriteLine_query flib port qbase line @ [LF])
                      (split_char LF content)))
   \<and> (isUTF8 flib content \<and>
       (\<forall>line \<in> set (split_char LF content). rewriteLine_query flib port qbase line = line) \<longrightarrow>
        rewriteHLSManifest_query flib port content qbase = content @ [LF])
   \<and> (\<not> str_contains line URI_attr \<and> \<not> prefix ''#'' line \<and> trimmingWhitespaces line \<noteq> [] \<and>
       port > 0 \<and> resolveUrl_query flib (trimmingWhitespaces line) qbase = Some qtarget \<longrightarrow>
        rewriteLine_query flib port qbase line =
          proxyUrlString port (percentEncode urlQueryAllowed (absoluteString qtarget)) \<and>
        removingPercentEncoding (percentEncode urlQueryAllowed (absoluteString qtarget))
          = Some (absoluteString qtarget) \<and>
        URL_string (absoluteString qtarget) = Some qtarget)
   \<and> (prefix ''http://'' u \<or> prefix ''https://'' u \<longrightarrow> resolveUrl_query flib u qbase = URL_string u)
   \<and> (\<not> str_contains line URI_attr \<and>
       resolveUrl_query flib (trimmingWhitespaces line) qbase = None \<longrightarrow>
        rewriteLine_query flib port qbase line = line)
   \<and> (\<not> str_contains line URI_attr \<and> (prefix ''#'' line \<or> trimmingWhitespaces line = []) \<longrightarrow>
        rewriteLine_query flib port qbase line = line)
   \<and> (\<not> str_contains (pre @ ''URI='') URI_attr \<and> DQUOTE \<notin> set v \<longrightarrow>
        rewriteLine_query flib port qbase (pre @ URI_attr @ v @ DQUOTE # post) =
          pre @ URI_attr @
          (case resolveUrl_query flib v qbase of
             Some target \<Rightarrow>
               (if port = 0 then v
                else proxyUrlString port (percentEncode urlQueryAllowed (absoluteString target)))
           | None \<Rightarrow> v) @
          [DQUOTE] @ rewriteURIAttributes_query flib port post qbase)
   \<and> (\<not> str_contains post URI_attr \<longrightarrow> rewriteURIAttributes_query flib port post qbase = post)
   \<and> (\<not> str_contains line URI_attr \<longrightarrow> rewriteLine_android lib 0 baseUrl line = line)
   \<and> (\<not> str_contains line URI_attr \<longrightarrow> rewriteLine_query flib 0 qbase line = line)"
proof (intro conjI impI; (elim conjE)?)
  show "rewriteHLSManifest_android lib port content baseUrl = content"
    if "\<not> URI_valid lib baseUrl"
    using that by (simp add: rewriteHLSManifest_android_def)
  show "rewriteHLSManifest_android lib port content baseUrl =
          concat (map (\<lambda>line. rewriteLine_android lib port baseUrl line @ [LF])
                      (split_char LF content))"
    if "URI_valid lib baseUrl"
    using that by (rule rewriteHLSManifest_android_lines)
  show "rewriteHLSManifest_android lib port content baseUrl = content @ [LF]"
    if "URI_valid lib baseUrl"
      and "\<forall>line \<in> set (split_char LF content). rewriteLine_android lib port baseUrl line = line"
    using that by (simp only: rewriteHLSManifest_android_lines unrewritten_lines)
  show "rewriteLine_android lib port baseUrl line = proxyUrlString port (URLEncoder_encode target)"
    if "\<not> str_contains line URI_attr" "\<not> prefix ''#'' line" "trim line \<noteq> []" "port \<noteq> 0"
       "resolveUrl_android lib (trim line) baseUrl = Some target"
    using that(1,2,3,5,4) by (rule rewriteLine_android_reference)
  show "createProxyUrl_android port target = Some (proxyUrlString port (URLEncoder_encode target))"
    if "port \<noteq> 0"
    using that by (simp add: createProxyUrl_android_def)
  show "URLDecoder_decode (URLEncoder_encode target) = Some target"
    by (rule URLDecoder_decode_encode)
  show "resolveUrl_android lib u baseUrl = Some u"
    if "prefix ''http://'' u \<or> prefix ''https://'' u"
    using that by (rule resolveUrl_android_absolute)
  show "resolveUrl_android lib u baseUrl = URI_resolve lib baseUrl u"
    if "\<not> prefix ''http://'' u" "\<not> prefix ''https://'' u"
    using that by (rule resolveUrl_android_relative)
  show "rewriteLine_android lib port baseUrl line = line"
    if "\<not> str_contains line URI_attr" "resolveUrl_android lib (trim line) baseUrl = None"
    using that by (rule rewriteLine_android_unresolved)
  show "rewriteLine_android lib port baseUrl line = line"
    if "\<not> str_contains line URI_attr" "prefix ''#'' line \<or> trim line = []"
    using that by (rule rewriteLine_android_other)
  show "rewriteLine_android lib port baseUrl (pre @ URI_attr @ v @ DQUOTE # post) =
          pre @ URI_attr @
          (case resolveUrl_android lib v baseUrl of
             Some target \<Rightarrow>
               (if port = 0 then v else proxyUrlString port (URLEncoder_encode target))
           | None \<Rightarrow> v) @
          [DQUOTE] @ rewriteURIAttributes_android lib port post baseUrl"
    if "\<not> str_contains (pre @ ''URI='') URI_attr" "DQUOTE \<notin> set v"
    using that by (rule rewriteLine_android_attribute)
  show "rewriteURIAttributes_android lib port post baseUrl = post"
    if "\<not> str_contains post URI_attr"
    using that by (rule rewriteURIAttributes_android_none)
  show "rewriteHLSManifest_query flib port content qbase = content"
    if "\<not> isUTF8 flib content"
    using that by (simp add: rewriteHLSManifest_query_def)
  show "rewriteHLSManifest_query flib port content qbase =
          concat (map (\<lambda>line. rewriteLine_query flib port qbase line @ [LF])
                      (split_char LF content))"
    if "isUTF8 flib content"
    using that by (rule rewriteHLSManifest_query_lines)
  show "rewriteHLSManifest_query flib port content qbase = content @ [LF]"
    if "isUTF8 flib content"
      and "\<forall>line \<in> set (split_char LF content). rewriteLine_query flib port qbase line = line"
    using that by (simp only: rewriteHLSManifest_query_lines unrewritten_lines)
  show "rewriteLine_query flib port qbase line =
          proxyUrlString port (percentEncode urlQueryAllowed (absoluteString qtarget))"
    if "\<not> str_contains line URI_attr" "\<not> prefix ''#'' line" "trimmingWhitespaces line \<noteq> []"
       "port > 0" "resolveUrl_query flib (trimmingWhitespaces line) qbase = Some qtarget"
    using that(1,2,3,5,4) by (rule rewriteLine_query_reference)
  show "removingPercentEncoding (percentEncode urlQueryAllowed (absoluteString qtarget))
          = Some (absoluteString qtarget)"
    by (rule removingPercentEncoding_encoded)
  show "URL_string (absoluteString qtarget) = Some qtarget"
    by (rule URL_string_absoluteString)
  show "resolveUrl_query flib u qbase = URL_string u"
    if "prefix ''http://'' u \<or> prefix ''https://'' u"
    using that by (rule resolveUrl_query_absolute)
  show "rewriteLine_query flib port qbase line = line"
    if "\<not> str_contains line URI_attr" "resolveUrl_query flib (trimmingWhitespaces line) qbase = None"
    using that by (rule rewriteLine_query_unresolved)
  show "rewriteLine_query flib port qbase line = line"
    if "\<not> str_contains line URI_attr" "prefix ''#'' line \<or> trimmingWhitespaces line = []"
    using that by (rule rewriteLine_query_other)
  show "rewriteLine_query flib port qbase (pre @ URI_attr @ v @ DQUOTE # post) =
          pre @ URI_attr @
          (case resolveUrl_query flib v qbase of
             Some target \<Rightarrow>
               (if port = 0 then v
                else proxyUrlString port (percentEncode urlQueryAllowed (absoluteString target)))
           | None \<Rightarrow> v) @
          [DQUOTE] @ rewriteURIAttributes_query flib port post qbase"
    if "\<not> str_contains (pre @ ''URI='') URI_attr" "DQUOTE \<notin> set v"
    using that by (rule rewriteLine_query_attribute)
  show "rewriteURIAttributes_query flib port post qbase = post"
    if "\<not> str_contains post URI_attr"
    using that by (rule rewriteURIAttributes_query_none)
  show "rewriteLine_android lib 0 baseUrl line = line"
    if "\<not> str_contains line URI_attr"
    using that by (rule rewriteLine_android_stopped)
  show "rewriteLine_query flib 0 qbase line = line"
    if "\<not> str_contains line URI_attr"
    using that by (rule rewriteLine_query_stopped)
qed

lemma encode_segment1:
  "URLEncoder_encode ''https://cdn.example/media/segment1.ts''
     = ''https%3A%2F%2Fcdn.example%2Fmedia%2Fsegment1.ts''"
  by code_simp

lemma encode_segment2:
  "URLEncoder_encode ''https://cdn.example/media/segment2.ts''
     = ''https%3A%2F%2Fcdn.example%2Fmedia%2Fsegment2.ts''"
  by code_simp

lemma proxyUrlString_8080: "proxyUrlString 8080 e = ''http://127.0.0.1:8080/proxy?url='' @ e"
  by (simp add: proxyUrlString_def show_nat_8080)

text \<open>
  Claim C3 as stated says that the rewritten lines are joined with the original line
  terminator and that an unrewritten body is byte-identical to the input.  A playlist with the
  single line \<^verbatim>\<open>#EXTM3U\<close> and its line feed is not rewritten, and comes out with two line feeds;
  a segment line ending in carriage return and line feed comes out as the proxy URL followed
  by two line feeds, without the carriage return.
\<close>

theorem manifest_gains_trailing_line_feed:
  "rewriteHLSManifest_android
     \<lparr>URI_valid = (\<lambda>s. True), URI_getPath = (\<lambda>s. Some ''/media/index.m3u8''),
      URI_resolve = (\<lambda>base ref. Some (''https://cdn.example/media/'' @ ref))\<rparr>
     8080 (''#EXTM3U'' @ [LF]) ''https://cdn.example/media/index.m3u8''
     = ''#EXTM3U'' @ [LF, LF]
   \<and> rewriteHLSManifest_android
     \<lparr>URI_valid = (\<lambda>s. True), URI_getPath = (\<lambda>s. Some ''/media/index.m3u8''),
      URI_resolve = (\<lambda>base ref. Some (''https://cdn.example/media/'' @ ref))\<rparr>
     8080 (''#EXTM3U'' @ [LF]) ''https://cdn.example/media/index.m3u8''
     \<noteq> ''#EXTM3U'' @ [LF]
   \<and> rewriteHLSManifest_android
     \<lparr>URI_valid = (\<lambda>s. True), URI_getPath = (\<lambda>s. Some ''/media/index.m3u8''),
      URI_resolve = (\<lambda>base ref. Some (''https://cdn.example/media/'' @ ref))\<rparr>
     8080 (''segment1.ts'' @ [CR, LF]) ''https://cdn.example/media/index.m3u8''
     = ''http://127.0.0.1:8080/proxy?url=https%3A%2F%2Fcdn.example%2Fmedia%2Fsegment1.ts'' @ [LF, LF]"
proof -
  have 1: "rewriteHLSManifest_android
     \<lparr>URI_valid = (\<lambda>s. True), URI_getPath = (\<lambda>s. Some ''/media/index.m3u8''),
      URI_resolve = (\<lambda>base ref. Some (''https://cdn.example/media/'' @ ref))\<rparr>
     8080 (''#EXTM3U'' @ [LF]) ''https://cdn.example/media/index.m3u8''
     = ''#EXTM3U'' @ [LF, LF]"
    by (simp add: rewriteHLSManifest_android_def rewriteLine_android_def LF_def URI_attr_def
        DQUOTE_def trim_def)
  have 3: "rewriteHLSManifest_android
     \<lparr>URI_valid = (\<lambda>s. True), URI_getPath = (\<lambda>s. Some ''/media/index.m3u8''),
      URI_resolve = (\<lambda>base ref. Some (''https://cdn.example/media/'' @ ref))\<rparr>
     8080 (''segment1.ts'' @ [CR, LF]) ''https://cdn.example/media/index.m3u8''
     = ''http://127.0.0.1:8080/proxy?url=https%3A%2F%2Fcdn.example%2Fmedia%2Fsegment1.ts'' @ [LF, LF]"
    by (simp add: rewriteHLSManifest_android_def rewriteLine_android_def LF_def CR_def URI_attr_def
        DQUOTE_def trim_def isWhitespace_def resolveUrl_android_def createProxyUrl_android_def
        proxyUrlString_8080 encode_segment1)
  from 1 have 2: "rewriteHLSManifest_android
     \<lparr>URI_valid = (\<lambda>s. True), URI_getPath = (\<lambda>s. Some ''/media/index.m3u8''),
      URI_resolve = (\<lambda>base ref. Some (''https://cdn.example/media/'' @ ref))\<rparr>
     8080 (''#EXTM3U'' @ [LF]) ''https://cdn.example/media/index.m3u8''
     \<noteq> ''#EXTM3U'' @ [LF]"
    by simp
  from 1 2 3 show ?thesis by (intro conjI)
qed

theorem manifest_rewritten_line_by_line_witness:
  "rewriteHLSManifest_android
     \<lparr>URI_valid = (\<lambda>s. True), URI_getPath = (\<lambda>s. Some ''/media/index.m3u8''),
      URI_resolve = (\<lambda>base ref. Some (''https://cdn.example/media/'' @ ref))\<rparr>
     8080 (''segment1.ts'' @ [LF] @ ''segment2.ts'' @ [LF]) ''https://cdn.example/media/index.m3u8''
     = ''http://127.0.0.1:8080/proxy?url=https%3A%2F%2Fcdn.example%2Fmedia%2Fsegment1.ts'' @ [LF] @
       ''http://127.0.0.1:8080/proxy?url=https%3A%2F%2Fcdn.example%2Fmedia%2Fsegment2.ts'' @ [LF] @
       [LF]
   \<and> URLDecoder_decode ''https%3A%2F%2Fcdn.example%2Fmedia%2Fsegment1.ts''
       = Some ''https://cdn.example/media/segment1.ts''
   \<and> URLDecoder_decode ''https%3A%2F%2Fcdn.example%2Fmedia%2Fsegment2.ts''
       = Some ''https://cdn.example/media/segment2.ts''
   \<and> rewriteLine_android
     \<lparr>URI_valid = (\<lambda>s. True), URI_getPath = (\<lambda>s. Some ''/media/index.m3u8''),
      URI_resolve = (\<lambda>base ref. Some (''https://cdn.example/media/'' @ ref))\<rparr>
     8080 ''https://cdn.example/media/index.m3u8''
     (''#EXT-X-MAP:'' @ URI_attr @ ''segment1.ts'' @ DQUOTE # '',BYTERANGE=1@0'')
     = ''#EXT-X-MAP:'' @ URI_attr @
       ''http://127.0.0.1:8080/proxy?url=https%3A%2F%2Fcdn.example%2Fmedia%2Fsegment1.ts'' @
       [DQUOTE] @ '',BYTERANGE=1@0''
   \<and> rewriteLine_query
     \<lparr>isUTF8 = (\<lambda>s. True),
      URL_relativeTo = (\<lambda>s base. URL_string (''https://cdn.example/media/'' @ s)),
      pathExtension = (\<lambda>u. ''m3u8'')\<rparr>
     8080 (URL_of_string ''https://cdn.example/media/index.m3u8'') ''segment1.ts''
     = ''http://127.0.0.1:8080/proxy?url=https://cdn.example/media/segment1.ts''"
proof -
  let ?lib = "\<lparr>URI_valid = (\<lambda>s. True), URI_getPath = (\<lambda>s. Some ''/media/index.m3u8''),
      URI_resolve = (\<lambda>base ref. Some (''https://cdn.example/media/'' @ ref))\<rparr>"
  let ?flib = "\<lparr>isUTF8 = (\<lambda>s. True),
      URL_relativeTo = (\<lambda>s base. URL_string (''https://cdn.example/media/'' @ s)),
      pathExtension = (\<lambda>u. ''m3u8'')\<rparr>"
  let ?base = "''https://cdn.example/media/index.m3u8''"
  let ?content = "''segment1.ts'' @ [LF] @ ''segment2.ts'' @ [LF]"
  have legal1: "isLegalURLString ''https://cdn.example/media/segment1.ts''"
    by (simp add: isLegalURLString_def urlLegalChar_def)
  have abs1: "absoluteString (URL_of_string ''https://cdn.example/media/segment1.ts'')
                = ''https://cdn.example/media/segment1.ts''"
    using legal1 by (simp add: URL_of_string_inverse)
  have qenc: "percentEncode urlQueryAllowed ''https://cdn.example/media/segment1.ts''
                = ''https://cdn.example/media/segment1.ts''"
    by (simp add: percentEncode_def urlQueryAllowed_def)
  note t1 = manifest_rewritten_line_by_line
    [where lib = ?lib and baseUrl = ?base and port = 8080 and content = ?content
       and line = "''segment1.ts''" and target = "''https://cdn.example/media/segment1.ts''"
       and pre = "''#EXT-X-MAP:''" and v = "''segment1.ts''" and post = "'',BYTERANGE=1@0''"
       and flib = ?flib and qbase = "URL_of_string ''https://cdn.example/media/index.m3u8''"
       and qtarget = "URL_of_string ''https://cdn.example/media/segment1.ts''"]
  note t2 = manifest_rewritten_line_by_line
    [where lib = ?lib and baseUrl = ?base and port = 8080 and content = ?content
       and line = "''segment2.ts''" and target = "''https://cdn.example/media/segment2.ts''"]
  note t3 = manifest_rewritten_line_by_line
    [where lib = ?lib and baseUrl = ?base and port = 8080 and line = "[]"]
  note body = t1 [THEN conjunct2, THEN conjunct1, rule_format]
  note ref1 = t1 [THEN conjunct2, THEN conjunct2, THEN conjunct2, THEN conjunct1, rule_format]
  note ref2 = t2 [THEN conjunct2, THEN conjunct2, THEN conjunct2, THEN conjunct1, rule_format]
  note other = t3 [THEN conjunct2, THEN conjunct2, THEN conjunct2, THEN conjunct2,
      THEN conjunct2, THEN conjunct2, THEN conjunct2, THEN conjunct1, rule_format]
  note attr = t1 [THEN conjunct2, THEN conjunct2, THEN conjunct2, THEN conjunct2,
      THEN conjunct2, THEN conjunct2, THEN conjunct2, THEN conjunct2, THEN conjunct1, rule_format]
  note attr_rest = t1 [THEN conjunct2, THEN conjunct2, THEN conjunct2, THEN conjunct2,
      THEN conjunct2, THEN conjunct2, THEN conjunct2, THEN conjunct2, THEN conjunct2,
      THEN conjunct1, rule_format]
  note qref = t1 [THEN conjunct2, THEN conjunct2, THEN conjunct2, THEN conjunct2,
      THEN conjunct2, THEN conjunct2, THEN conjunct2, THEN conjunct2, THEN conjunct2,
      THEN conjunct2, THEN conjunct2, THEN conjunct2, THEN conjunct2, THEN conjunct1, rule_format]
  have p1: "\<not> str_contains ''segment1.ts'' URI_attr \<and> \<not> prefix ''#'' ''segment1.ts'' \<and>
      trim ''segment1.ts'' \<noteq> [] \<and> (8080::nat) \<noteq> 0 \<and>
      resolveUrl_android ?lib (trim ''segment1.ts'') ?base = Some ''https://cdn.example/media/segment1.ts''"
    by (simp add: URI_attr_def DQUOTE_def trim_def isWhitespace_def resolveUrl_android_def)
  have p2: "\<not> str_contains ''segment2.ts'' URI_attr \<and> \<not> prefix ''#'' ''segment2.ts'' \<and>
      trim ''segment2.ts'' \<noteq> [] \<and> (8080::nat) \<noteq> 0 \<and>
      resolveUrl_android ?lib (trim ''segment2.ts'') ?base = Some ''https://cdn.example/media/segment2.ts''"
    by (simp add: URI_attr_def DQUOTE_def trim_def isWhitespace_def resolveUrl_android_def)
  have p3: "\<not> str_contains [] URI_attr \<and> (prefix ''#'' [] \<or> trim [] = [])"
    by (simp add: URI_attr_def trim_def)
  have l1: "rewriteLine_android ?lib 8080 ?base ''segment1.ts''
              = proxyUrlString 8080 (URLEncoder_encode ''https://cdn.example/media/segment1.ts'')"
    and d1: "URLDecoder_decode (URLEncoder_encode ''https://cdn.example/media/segment1.ts'')
              = Some ''https://cdn.example/media/segment1.ts''"
    using ref1 [OF p1] by blast+
  have l2: "rewriteLine_android ?lib 8080 ?base ''segment2.ts''
              = proxyUrlString 8080 (URLEncoder_encode ''https://cdn.example/media/segment2.ts'')"
    and d2: "URLDecoder_decode (URLEncoder_encode ''https://cdn.example/media/segment2.ts'')
              = Some ''https://cdn.example/media/segment2.ts''"
    using ref2 [OF p2] by blast+
  have l3: "rewriteLine_android ?lib 8080 ?base [] = []"
    using other [OF p3] .
  have valid: "URI_valid ?lib ?base"
    by simp
  have lines: "split_char LF ?content = [''segment1.ts'', ''segment2.ts'', []]"
    by (simp add: LF_def)
  have w1: "rewriteHLSManifest_android ?lib 8080 ?content ?base
     = ''http://127.0.0.1:8080/proxy?url=https%3A%2F%2Fcdn.example%2Fmedia%2Fsegment1.ts'' @ [LF] @
       ''http://127.0.0.1:8080/proxy?url=https%3A%2F%2Fcdn.example%2Fmedia%2Fsegment2.ts'' @ [LF] @
       [LF]"
    unfolding body [OF valid] lines
    by (simp only: list.map concat.simps l1 l2 l3)
      (simp add: proxyUrlString_8080 encode_segment1 encode_segment2)
  have w4: "rewriteLine_android ?lib 8080 ?base
     (''#EXT-X-MAP:'' @ URI_attr @ ''segment1.ts'' @ DQUOTE # '',BYTERANGE=1@0'')
     = ''#EXT-X-MAP:'' @ URI_attr @
       ''http://127.0.0.1:8080/proxy?url=https%3A%2F%2Fcdn.example%2Fmedia%2Fsegment1.ts'' @
       [DQUOTE] @ '',BYTERANGE=1@0''"
  proof -
    have a: "\<not> str_contains (''#EXT-X-MAP:'' @ ''URI='') URI_attr \<and> DQUOTE \<notin> set ''segment1.ts''"
      by (simp add: URI_attr_def DQUOTE_def)
    have c: "\<not> str_contains '',BYTERANGE=1@0'' URI_attr"
      by (simp add: URI_attr_def DQUOTE_def)
    have r: "resolveUrl_android ?lib ''segment1.ts'' ?base = Some ''https://cdn.example/media/segment1.ts''"
      by (simp add: resolveUrl_android_def)
    show ?thesis
      unfolding attr [OF a] attr_rest [OF c]
      by (simp only: r option.case encode_segment1 proxyUrlString_8080) simp
  qed
  have w5: "rewriteLine_query ?flib 8080 (URL_of_string ''https://cdn.example/media/index.m3u8'')
      ''segment1.ts'' = ''http://127.0.0.1:8080/proxy?url=https://cdn.example/media/segment1.ts''"
  proof -
    have r: "\<not> str_contains ''segment1.ts'' URI_attr \<and> \<not> prefix ''#'' ''segment1.ts'' \<and>
       trimmingWhitespaces ''segment1.ts'' \<noteq> [] \<and> (8080::nat) > 0 \<and>
       resolveUrl_query ?flib (trimmingWhitespaces ''segment1.ts'')
               (URL_of_string ''https://cdn.example/media/index.m3u8'')
               = Some (URL_of_string ''https://cdn.example/media/segment1.ts'')"
      by (simp add: resolveUrl_query_def trimmingWhitespaces_def isSwiftWhitespace_def
          URL_string_def legal1 URI_attr_def DQUOTE_def)
    have "rewriteLine_query ?flib 8080 (URL_of_string ''https://cdn.example/media/index.m3u8'')
            ''segment1.ts''
          = proxyUrlString 8080 (percentEncode urlQueryAllowed
              (absoluteString (URL_of_string ''https://cdn.example/media/segment1.ts'')))"
      using qref [OF r] by blast
    then show ?thesis
      by (simp only: abs1 qenc proxyUrlString_8080) simp
  qed
  from d1 have w2: "URLDecoder_decode ''https%3A%2F%2Fcdn.example%2Fmedia%2Fsegment1.ts''
       = Some ''https://cdn.example/media/segment1.ts''"
    by (simp only: encode_segment1)
  from d2 have w3: "URLDecoder_decode ''https%3A%2F%2Fcdn.example%2Fmedia%2Fsegment2.ts''
       = Some ''https://cdn.example/media/segment2.ts''"
    by (simp only: encode_segment2)
  from w1 w2 w3 w4 w5 show ?thesis by (intro conjI)
qed

section \<open>Redirects\<close>

lemma absoluteString_proxied:
  "absoluteString (URL_of_string (proxyBaseUrl port @ absoluteString u))
     = proxyBaseUrl port @ absoluteString u"
  using isLegal_proxied [OF absoluteString_legal, of port u] by (simp add: URL_of_string_inverse)

lemma fetchAndProxy_ios_redirect:
  assumes "dataTask (buildRequest_ios p originalUrl originalHeaders) = HTTPResponse r"
    and "isRedirectStatus (resp_code r)"
    and "valueForHTTPHeaderField (resp_headers r) ''Location'' = Some location"
    and "(case URL_relativeTo lib location originalUrl of
            Some u \<Rightarrow> Some u | None \<Rightarrow> URL_string location) = Some target"
    and "i_port p > 0"
  shows "written (fetchAndProxy_ios lib dataTask p originalUrl originalHeaders)
           = sendRedirectResponse_ios (resp_code r) (proxyBaseUrl (i_port p) @ absoluteString target)"
proof -
  have "proxiedRedirectUrl lib (i_port p) originalUrl r
          = Some (URL_of_string (proxyBaseUrl (i_port p) @ absoluteString target))"
    using assms(3,4,5) by (simp add: proxiedRedirectUrl_def createProxyUrl_ios_running)
  then show ?thesis
    using assms(1,2) by (simp add: fetchAndProxy_ios_def Let_def absoluteString_proxied)
qed

lemma fetchAndProxy_ios_ordinary:
  assumes "dataTask (buildRequest_ios p originalUrl originalHeaders) = HTTPResponse r"
    and "\<not> isRedirectStatus (resp_code r) \<or>
         valueForHTTPHeaderField (resp_headers r) ''Location'' = None \<or>
         (\<exists>location. valueForHTTPHeaderField (resp_headers r) ''Location'' = Some location \<and>
            URL_relativeTo lib location originalUrl = None \<and> URL_string location = None) \<or>
         i_port p = 0"
  shows "written (fetchAndProxy_ios lib dataTask p originalUrl originalHeaders)
           = sendResponse_ios (resp_code r)
               (valueForHTTPHeaderField (resp_headers r) ''Content-Type'') (resp_body r)"
proof -
  have "(if isRedirectStatus (resp_code r) then proxiedRedirectUrl lib (i_port p) originalUrl r
         else None) = None"
    using assms(2) by (auto simp: proxiedRedirectUrl_def createProxyUrl_ios_def split: option.splits)
  then show ?thesis
    using assms(1) by (simp add: fetchAndProxy_ios_def Let_def)
qed

lemma sendRedirectResponse_ios_status:
  "prefix (''HTTP/1.1 '' @ show_nat statusCode) (sendRedirectResponse_ios statusCode location)"
  by (simp add: sendRedirectResponse_ios_def)

lemma not_skipped_Location: "\<not> skippedHeader ''Location''"
  by (simp add: skippedHeader_def lowercase_Location)

lemma filter_key_update_other:
  "k \<noteq> name \<Longrightarrow>
     filter (\<lambda>(key, value). key = name) (AList.update k v al)
       = filter (\<lambda>(key, value). key = name) al"
  by (induction al) auto

lemma responseHeadersMap_android_Location:
  "filter (\<lambda>(key, value). key = ''Location'') (responseHeadersMap_android lib originalUrl resp)
     = filter (\<lambda>(key, value). key = ''Location'') (toMap (resp_headers resp))"
  by (simp add: responseHeadersMap_android_def Let_def filter_key_update_other)

lemma sendResponse_android_fields_Location:
  "filter (\<lambda>(key, value). key = ''Location'') (sendResponse_android_fields headers body)
     = filter (\<lambda>(key, value). key = ''Location'') headers"
proof -
  have "filter (\<lambda>(key, value). key = ''Location'')
          (filter (\<lambda>(key, value). \<not> skippedHeader key) headers)
        = filter (\<lambda>(key, value). key = ''Location'') headers"
    unfolding filter_filter
    by (rule filter_cong) (auto simp: not_skipped_Location)
  then show ?thesis
    by (simp add: sendResponse_android_fields_def del: filter_filter)
qed

lemma sendResponse_ios_fields_names:
  "fst ` set (sendResponse_ios_fields contentType data)
     \<subseteq> {''Access-Control-Allow-Origin'', ''Content-Type'', ''Content-Length''}"
  by (cases contentType) (simp_all add: sendResponse_ios_fields_def)

lemma show_nat_5: "show_nat (Suc (Suc (Suc (Suc (Suc 0))))) = ''5''"
  by (simp add: show_nat.simps)

text \<open>
  Claim C4.  An upstream response with status 301, 302, 307 or 308 and a \<^verbatim>\<open>Location\<close> is not
  followed by the proxy but answered with the same status and, as \<^verbatim>\<open>Location\<close>, the proxy URL
  of the resolved target; if the \<^verbatim>\<open>Location\<close> is missing or unresolvable, the response is
  passed through unmodified.

  The path-embedding Swift proxy does the first: its session delegate answers every
  redirection with \<^verbatim>\<open>nil\<close>, and for a \<^verbatim>\<open>Location\<close> that resolves while the proxy is running the
  client gets the same status code and the proxy URL of the target, which \<^verbatim>\<open>unproxiedUrl\<close>
  decodes to that target.  It does not do the second.  In every other case the response is
  written by \<^verbatim>\<open>sendResponse\<close>, which is given the status, the upstream \<^verbatim>\<open>Content-Type\<close> and the
  body: the fields it writes are \<^verbatim>\<open>Access-Control-Allow-Origin\<close>, \<^verbatim>\<open>Content-Type\<close> and
  \<^verbatim>\<open>Content-Length\<close>, and every other upstream header is left out, although the comment at that
  call reads \<^emph>\<open>Return the response as-is\<close> and the writers of the two other proxies forward the
  upstream headers.  The fifth conjunct evaluates the proxy at an upstream \<^verbatim>\<open>302\<close> without
  \<^verbatim>\<open>Location\<close> and with \<^verbatim>\<open>Cache-Control: no-cache\<close>: the response to the client has no
  \<^verbatim>\<open>Cache-Control\<close> field.

  The Kotlin proxy's HTTP client is built with \<^verbatim>\<open>followRedirects(true)\<close>, and its writer passes
  the \<^verbatim>\<open>Location\<close> fields of the response it is given on as they are.
\<close>

theorem untranslated_redirect_drops_upstream_headers:
  "willPerformHTTPRedirection response newRequest = None
   \<and> (dataTask (buildRequest_ios p originalUrl originalHeaders) = HTTPResponse r \<and>
       isRedirectStatus (resp_code r) \<and>
       valueForHTTPHeaderField (resp_headers r) ''Location'' = Some location \<and>
       (case URL_relativeTo lib location originalUrl of
          Some u \<Rightarrow> Some u | None \<Rightarrow> URL_string location) = Some target \<and>
       i_port p > 0 \<longrightarrow>
        written (fetchAndProxy_ios lib dataTask p originalUrl originalHeaders)
          = sendRedirectResponse_ios (resp_code r)
              (proxyBaseUrl (i_port p) @ absoluteString target) \<and>
        prefix (''HTTP/1.1 '' @ show_nat (resp_code r))
          (written (fetchAndProxy_ios lib dataTask p originalUrl originalHeaders)) \<and>
        sendRedirectResponse_ios_fields (proxyBaseUrl (i_port p) @ absoluteString target)
          = [(''Location'', proxyBaseUrl (i_port p) @ absoluteString target),
             (''Content-Length'', ''0'')] \<and>
        unproxiedUrl (i_port p) (URL_of_string (proxyBaseUrl (i_port p) @ absoluteString target))
          = Some target)
   \<and> (dataTask (buildRequest_ios p originalUrl originalHeaders) = HTTPResponse r \<and>
       (\<not> isRedirectStatus (resp_code r) \<or>
        valueForHTTPHeaderField (resp_headers r) ''Location'' = None \<or>
        (\<exists>location. valueForHTTPHeaderField (resp_headers r) ''Location'' = Some location \<and>
           URL_relativeTo lib location originalUrl = None \<and> URL_string location = None) \<or>
        i_port p = 0) \<longrightarrow>
        written (fetchAndProxy_ios lib dataTask p originalUrl originalHeaders)
          = ''HTTP/1.1 '' @ show_nat (resp_code r) @ '' '' @ httpStatusMessage_ios (resp_code r) @ CRLF @
            concat (map headerLine
              (sendResponse_ios_fields
                 (valueForHTTPHeaderField (resp_headers r) ''Content-Type'') (resp_body r))) @
            CRLF @ resp_body r)
   \<and> fst ` set (sendResponse_ios_fields contentType data)
        \<subseteq> {''Access-Control-Allow-Origin'', ''Content-Type'', ''Content-Length''}
   \<and> written
        (fetchAndProxy_ios
           \<lparr>isUTF8 = (\<lambda>s. True),
            URL_relativeTo = (\<lambda>s base. if s = ''/v2/seg.ts''
                                         then URL_string ''https://cdn.example/v2/seg.ts'' else None),
            pathExtension = (\<lambda>u. [])\<rparr>
           (\<lambda>request. HTTPResponse
              \<lparr>resp_code = 302,
               resp_headers = [(''Cache-Control'', ''no-cache''), (''Content-Type'', ''text/html'')],
               resp_body = ''moved''\<rparr>)
           \<lparr>i_listener = Some 1, i_port = 8080, i_activeConnections = [7],
            i_staticHeaders = [], i_dynamicHeadersProvider = None,
            cancelledListeners = {}, cancelledConnections = {}\<rparr>
           (URL_of_string ''https://cdn.example/a/b.m3u8'') [])
        = ''HTTP/1.1 302 Found'' @ CRLF @
          ''Access-Control-Allow-Origin: *'' @ CRLF @
          ''Content-Type: text/html'' @ CRLF @
          ''Content-Length: 5'' @ CRLF @ CRLF @
          ''moved''
   \<and> followRedirects httpClient
   \<and> filter (\<lambda>(key, value). key = ''Location'')
        (sendResponse_android_fields (responseHeadersMap_android alib url resp) body)
        = filter (\<lambda>(key, value). key = ''Location'') (toMap (resp_headers resp))"
proof (intro conjI impI; (elim conjE)?)
  show "willPerformHTTPRedirection response newRequest = None"
    by (simp add: willPerformHTTPRedirection_def)
  show "written (fetchAndProxy_ios lib dataTask p originalUrl originalHeaders)
          = sendRedirectResponse_ios (resp_code r)
              (proxyBaseUrl (i_port p) @ absoluteString target)"
    if "dataTask (buildRequest_ios p originalUrl originalHeaders) = HTTPResponse r"
       "isRedirectStatus (resp_code r)"
       "valueForHTTPHeaderField (resp_headers r) ''Location'' = Some location"
       "(case URL_relativeTo lib location originalUrl of
          Some u \<Rightarrow> Some u | None \<Rightarrow> URL_string location) = Some target"
       "i_port p > 0"
    using that by (rule fetchAndProxy_ios_redirect)
  then show "prefix (''HTTP/1.1 '' @ show_nat (resp_code r))
          (written (fetchAndProxy_ios lib dataTask p originalUrl originalHeaders))"
    if "dataTask (buildRequest_ios p originalUrl originalHeaders) = HTTPResponse r"
       "isRedirectStatus (resp_code r)"
       "valueForHTTPHeaderField (resp_headers r) ''Location'' = Some location"
       "(case URL_relativeTo lib location originalUrl of
          Some u \<Rightarrow> Some u | None \<Rightarrow> URL_string location) = Some target"
       "i_port p > 0"
    using that by (simp only: sendRedirectResponse_ios_status)
  show "sendRedirectResponse_ios_fields (proxyBaseUrl (i_port p) @ absoluteString target)
          = [(''Location'', proxyBaseUrl (i_port p) @ absoluteString target),
             (''Content-Length'', ''0'')]"
    by (simp add: sendRedirectResponse_ios_fields_def)
  show "unproxiedUrl (i_port p) (URL_of_string (proxyBaseUrl (i_port p) @ absoluteString target))
          = Some target"
    by (rule unproxiedUrl_proxied)
  show "written (fetchAndProxy_ios lib dataTask p originalUrl originalHeaders)
          = ''HTTP/1.1 '' @ show_nat (resp_code r) @ '' '' @ httpStatusMessage_ios (resp_code r) @ CRLF @
            concat (map headerLine
              (sendResponse_ios_fields
                 (valueForHTTPHeaderField (resp_headers r) ''Content-Type'') (resp_body r))) @
            CRLF @ resp_body r"
    if "dataTask (buildRequest_ios p originalUrl originalHeaders) = HTTPResponse r"
       "\<not> isRedirectStatus (resp_code r) \<or>
        valueForHTTPHeaderField (resp_headers r) ''Location'' = None \<or>
        (\<exists>location. valueForHTTPHeaderField (resp_headers r) ''Location'' = Some location \<and>
           URL_relativeTo lib location originalUrl = None \<and> URL_string location = None) \<or>
        i_port p = 0"
    using fetchAndProxy_ios_ordinary
      [where lib = lib and dataTask = dataTask and p = p and originalUrl = originalUrl
         and originalHeaders = originalHeaders and r = r, OF that]
    by (simp only: sendResponse_ios_def)
  show "fst ` set (sendResponse_ios_fields contentType data)
        \<subseteq> {''Access-Control-Allow-Origin'', ''Content-Type'', ''Content-Length''}"
    by (rule sendResponse_ios_fields_names)
  show "written
        (fetchAndProxy_ios
           \<lparr>isUTF8 = (\<lambda>s. True),
            URL_relativeTo = (\<lambda>s base. if s = ''/v2/seg.ts''
                                         then URL_string ''https://cdn.example/v2/seg.ts'' else None),
            pathExtension = (\<lambda>u. [])\<rparr>
           (\<lambda>request. HTTPResponse
              \<lparr>resp_code = 302,
               resp_headers = [(''Cache-Control'', ''no-cache''), (''Content-Type'', ''text/html'')],
               resp_body = ''moved''\<rparr>)
           \<lparr>i_listener = Some 1, i_port = 8080, i_activeConnections = [7],
            i_staticHeaders = [], i_dynamicHeadersProvider = None,
            cancelledListeners = {}, cancelledConnections = {}\<rparr>
           (URL_of_string ''https://cdn.example/a/b.m3u8'') [])
        = ''HTTP/1.1 302 Found'' @ CRLF @
          ''Access-Control-Allow-Origin: *'' @ CRLF @
          ''Content-Type: text/html'' @ CRLF @
          ''Content-Length: 5'' @ CRLF @ CRLF @
          ''moved''"
  proof -
    have loc: "valueForHTTPHeaderField
                 [(''Cache-Control'', ''no-cache''), (''Content-Type'', ''text/html'')] ''Location''
               = None"
      by (simp add: valueForHTTPHeaderField_def lowercase_def toLowerAscii_def)
    have ct: "valueForHTTPHeaderField
                 [(''Cache-Control'', ''no-cache''), (''Content-Type'', ''text/html'')] ''Content-Type''
               = Some ''text/html''"
      by (simp add: valueForHTTPHeaderField_def lowercase_def toLowerAscii_def)
    show ?thesis
      unfolding fetchAndProxy_ios_def Let_def
      by (simp add: proxiedRedirectUrl_def loc ct isRedirectStatus_def sendResponse_ios_def
          sendResponse_ios_fields_def headerLine_def show_nat_302 show_nat_5
          httpStatusMessage_ios_def del: valueForHTTPHeaderField_def)
  qed
  show "followRedirects httpClient"
    by (simp add: httpClient_def)
  show "filter (\<lambda>(key, value). key = ''Location'')
        (sendResponse_android_fields (responseHeadersMap_android alib url resp) body)
        = filter (\<lambda>(key, value). key = ''Location'') (toMap (resp_headers resp))"
    by (simp only: sendResponse_android_fields_Location responseHeadersMap_android_Location)
qed

theorem untranslated_redirect_drops_upstream_headers_witness:
  "written
     (fetchAndProxy_ios
        \<lparr>isUTF8 = (\<lambda>s. True),
         URL_relativeTo = (\<lambda>s base. if s = ''/v2/seg.ts''
                                      then URL_string ''https://cdn.example/v2/seg.ts'' else None),
         pathExtension = (\<lambda>u. [])\<rparr>
        (\<lambda>request. HTTPResponse
           \<lparr>resp_code = 302, resp_headers = [(''Location'', ''/v2/seg.ts'')], resp_body = []\<rparr>)
        \<lparr>i_listener = Some 1, i_port = 8080, i_activeConnections = [7],
         i_staticHeaders = [], i_dynamicHeadersProvider = None,
         cancelledListeners = {}, cancelledConnections = {}\<rparr>
        (URL_of_string ''https://cdn.example/a/b.m3u8'') [])
     = ''HTTP/1.1 302 Found'' @ CRLF @
       ''Location: http://localhost:8080/https://cdn.example/v2/seg.ts'' @ CRLF @
       ''Content-Length: 0'' @ CRLF @ CRLF
   \<and> unproxiedUrl 8080 (URL_of_string ''http://localhost:8080/https://cdn.example/v2/seg.ts'')
     = Some (URL_of_string ''https://cdn.example/v2/seg.ts'')
   \<and> written
     (fetchAndProxy_ios
        \<lparr>isUTF8 = (\<lambda>s. True),
         URL_relativeTo = (\<lambda>s base. if s = ''/v2/seg.ts''
                                      then URL_string ''https://cdn.example/v2/seg.ts'' else None),
         pathExtension = (\<lambda>u. [])\<rparr>
        (\<lambda>request. HTTPResponse
           \<lparr>resp_code = 302,
            resp_headers = [(''Location'', ''/v2/seg 1.ts''), (''Cache-Control'', ''no-cache'')],
            resp_body = []\<rparr>)
        \<lparr>i_listener = Some 1, i_port = 8080, i_activeConnections = [7],
         i_staticHeaders = [], i_dynamicHeadersProvider = None,
         cancelledListeners = {}, cancelledConnections = {}\<rparr>
        (URL_of_string ''https://cdn.example/a/b.m3u8'') [])
     = ''HTTP/1.1 302 Found'' @ CRLF @
       ''Access-Control-Allow-Origin: *'' @ CRLF @
       ''Content-Length: 0'' @ CRLF @ CRLF"
proof -
  let ?lib = "\<lparr>isUTF8 = (\<lambda>s. True),
         URL_relativeTo = (\<lambda>s base. if s = ''/v2/seg.ts''
                                      then URL_string ''https://cdn.example/v2/seg.ts'' else None),
         pathExtension = (\<lambda>u. [])\<rparr>"
  let ?p = "\<lparr>i_listener = Some 1, i_port = 8080, i_activeConnections = [7],
         i_staticHeaders = [], i_dynamicHeadersProvider = None,
         cancelledListeners = {}, cancelledConnections = {}\<rparr>"
  let ?u = "URL_of_string ''https://cdn.example/a/b.m3u8''"
  let ?r1 = "\<lparr>resp_code = 302, resp_headers = [(''Location'', ''/v2/seg.ts'')], resp_body = []\<rparr>"
  let ?r2 = "\<lparr>resp_code = 302,
            resp_headers = [(''Location'', ''/v2/seg 1.ts''), (''Cache-Control'', ''no-cache'')],
            resp_body = []\<rparr>"
  let ?target = "URL_of_string ''https://cdn.example/v2/seg.ts''"
  have abs: "absoluteString ?target = ''https://cdn.example/v2/seg.ts''"
    using seg_legal by (simp add: URL_of_string_inverse)
  have base: "proxyBaseUrl 8080 = ''http://localhost:8080/''"
    by (simp add: proxyBaseUrl_def show_nat_8080)
  note t1 = untranslated_redirect_drops_upstream_headers
    [where lib = ?lib and dataTask = "\<lambda>request. HTTPResponse ?r1" and p = ?p and originalUrl = ?u
       and originalHeaders = "[]" and r = ?r1 and location = "''/v2/seg.ts''" and target = ?target]
  note t2 = untranslated_redirect_drops_upstream_headers
    [where lib = ?lib and dataTask = "\<lambda>request. HTTPResponse ?r2" and p = ?p and originalUrl = ?u
       and originalHeaders = "[]" and r = ?r2]
  note red = t1 [THEN conjunct2, THEN conjunct1, rule_format]
  note ord = t2 [THEN conjunct2, THEN conjunct2, THEN conjunct1, rule_format]
  have h1: "(\<lambda>request. HTTPResponse ?r1) (buildRequest_ios ?p ?u []) = HTTPResponse ?r1 \<and>
       isRedirectStatus (resp_code ?r1) \<and>
       valueForHTTPHeaderField (resp_headers ?r1) ''Location'' = Some ''/v2/seg.ts'' \<and>
       (case URL_relativeTo ?lib ''/v2/seg.ts'' ?u of
          Some u \<Rightarrow> Some u | None \<Rightarrow> URL_string ''/v2/seg.ts'') = Some ?target \<and>
       i_port ?p > 0"
    by (simp add: isRedirectStatus_def valueForHTTPHeaderField_def lowercase_Location
        URL_string_def seg_legal)
  have loc2: "valueForHTTPHeaderField (resp_headers ?r2) ''Location'' = Some ''/v2/seg 1.ts''"
    by (simp add: valueForHTTPHeaderField_def lowercase_Location)
  have ct2: "valueForHTTPHeaderField
               [(''Location'', ''/v2/seg 1.ts''), (''Cache-Control'', ''no-cache'')] ''Content-Type''
             = None"
    by (simp add: valueForHTTPHeaderField_def lowercase_def toLowerAscii_def)
  have ill: "URL_string ''/v2/seg 1.ts'' = None"
    by (simp add: URL_string_def isLegalURLString_def urlLegalChar_def)
  have h2: "(\<lambda>request. HTTPResponse ?r2) (buildRequest_ios ?p ?u []) = HTTPResponse ?r2 \<and>
       (\<not> isRedirectStatus (resp_code ?r2) \<or>
        valueForHTTPHeaderField (resp_headers ?r2) ''Location'' = None \<or>
        (\<exists>location. valueForHTTPHeaderField (resp_headers ?r2) ''Location'' = Some location \<and>
           URL_relativeTo ?lib location ?u = None \<and> URL_string location = None) \<or>
        i_port ?p = 0)"
    unfolding loc2 by (simp add: ill)
  from red [OF h1] have a: "written (fetchAndProxy_ios ?lib (\<lambda>request. HTTPResponse ?r1) ?p ?u [])
          = sendRedirectResponse_ios (resp_code ?r1) (proxyBaseUrl (i_port ?p) @ absoluteString ?target)"
    and b: "unproxiedUrl (i_port ?p) (URL_of_string (proxyBaseUrl (i_port ?p) @ absoluteString ?target))
          = Some ?target"
    by blast+
  have w1: "written (fetchAndProxy_ios ?lib (\<lambda>request. HTTPResponse ?r1) ?p ?u [])
     = ''HTTP/1.1 302 Found'' @ CRLF @
       ''Location: http://localhost:8080/https://cdn.example/v2/seg.ts'' @ CRLF @
       ''Content-Length: 0'' @ CRLF @ CRLF"
    unfolding a
    by (simp add: abs base sendRedirectResponse_ios_def sendRedirectResponse_ios_fields_def
        headerLine_def show_nat_302 httpStatusMessage_ios_def)
  from b have w2: "unproxiedUrl 8080 (URL_of_string ''http://localhost:8080/https://cdn.example/v2/seg.ts'')
     = Some ?target"
    by (simp add: abs base)
  have w3: "written (fetchAndProxy_ios ?lib (\<lambda>request. HTTPResponse ?r2) ?p ?u [])
     = ''HTTP/1.1 302 Found'' @ CRLF @
       ''Access-Control-Allow-Origin: *'' @ CRLF @
       ''Content-Length: 0'' @ CRLF @ CRLF"
    unfolding ord [OF h2]
    by (simp add: ct2 sendResponse_ios_fields_def headerLine_def show_nat_302
        httpStatusMessage_ios_def show_nat.simps del: valueForHTTPHeaderField_def)
  from w1 w2 w3 show ?thesis by (intro conjI)
qed

end
